theory Spec2Isabelle
  imports
    Complex_Main
    "HOL-Library.Product_Lexorder"
    "HOL-Library.Char_ord"
    "HOL-Library.List_Lexorder"
    "HOL-Library.Multiset"
begin

section \<open>Timestamps and the calendar\<close>

text \<open>
  \<^verbatim>\<open>pd.to_datetime(date)\<close> yields a pandas Timestamp. A timestamp is modelled by its
  proleptic Gregorian fields: year, month, day and the nanoseconds since midnight.
  The lexicographic order of the tuple is the chronological order. \<^verbatim>\<open>NaT\<close> is
  not a timestamp: a column cell that may be \<^verbatim>\<open>NaT\<close> has type \<open>timestamp option\<close>.
\<close>

type_synonym timestamp = "int \<times> nat \<times> nat \<times> nat"

definition ts_year :: "timestamp \<Rightarrow> int" where
  "ts_year t = fst t"

definition ts_month :: "timestamp \<Rightarrow> nat" where
  "ts_month t = fst (snd t)"

definition ts_day :: "timestamp \<Rightarrow> nat" where
  "ts_day t = fst (snd (snd t))"

text \<open>
  The ISO 8601 calendar, as \<^verbatim>\<open>Series.dt.isocalendar()\<close> and Python's
  \<^verbatim>\<open>date.isocalendar()\<close> compute it: week 1 of a year is the week (Monday to Sunday)
  that holds the year's first Thursday. \<^verbatim>\<open>//\<close> and \<^verbatim>\<open>%\<close> of Python are \<open>div\<close> and
  \<open>mod\<close> on \<open>int\<close> (both round to minus infinity).
\<close>

definition is_leap :: "int \<Rightarrow> bool" where
  "is_leap year \<longleftrightarrow> year mod 4 = 0 \<and> (year mod 100 \<noteq> 0 \<or> year mod 400 = 0)"

definition days_before_year :: "int \<Rightarrow> int" where
  "days_before_year year = (let y = year - 1 in y * 365 + y div 4 - y div 100 + y div 400)"

definition days_in_month :: "int list" where
  "days_in_month = [31, 28, 31, 30, 31, 30, 31, 31, 30, 31, 30, 31]"

definition days_before_month :: "int \<Rightarrow> nat \<Rightarrow> int" where
  "days_before_month year month =
     sum_list (take (month - 1) days_in_month) + (if 2 < month \<and> is_leap year then 1 else 0)"

definition ymd2ord :: "int \<Rightarrow> nat \<Rightarrow> nat \<Rightarrow> int" where
  "ymd2ord year month day = days_before_year year + days_before_month year month + int day"

definition iso_week1_monday :: "int \<Rightarrow> int" where
  "iso_week1_monday year =
     (let firstday = ymd2ord year 1 1;
          firstweekday = (firstday + 6) mod 7;
          week1monday = firstday - firstweekday
      in if 3 < firstweekday then week1monday + 7 else week1monday)"

definition isocalendar :: "timestamp \<Rightarrow> int \<times> int" where
  \<comment> \<open>the pair (ISO year, ISO week number)\<close>
  "isocalendar t =
     (let year = ts_year t;
          today = ymd2ord year (ts_month t) (ts_day t);
          week = (today - iso_week1_monday year) div 7
      in if week < 0 then (year - 1, (today - iso_week1_monday (year - 1)) div 7 + 1)
         else if 52 \<le> week \<and> iso_week1_monday (year + 1) \<le> today then (year + 1, 1)
         else (year, week + 1))"

definition iso_year :: "timestamp \<Rightarrow> int" where
  "iso_year t = fst (isocalendar t)"

definition iso_week :: "timestamp \<Rightarrow> int" where
  "iso_week t = snd (isocalendar t)"


section \<open>Floating-point numbers\<close>

text \<open>
  The columns \<^verbatim>\<open>weight\<close>, \<^verbatim>\<open>volume\<close> and \<^verbatim>\<open>e1rm\<close> are \<^verbatim>\<open>float64\<close> columns: IEEE 754
  binary64 numbers, and the arithmetic on them (numpy's elementwise \<^verbatim>\<open>*\<close>, \<^verbatim>\<open>+\<close>,
  \<^verbatim>\<open>/\<close>) rounds every result to the nearest binary64 number, ties to the even
  significand. A value of the type \<open>float64\<close> is a finite number, given by the real
  number it denotes, or an infinity; the two zeros \<^verbatim>\<open>0.0\<close> and \<^verbatim>\<open>-0.0\<close> are the one
  value \<open>Finite 0\<close> (the program never divides by a computed value, nor prints a sign).
  NaN is the absent value \<open>None\<close> of a cell of type \<open>float64 option\<close>: pandas treats NaN
  in a float column as missing.
\<close>

datatype float64 = Finite real | PInf | NInf

instantiation float64 :: linorder
begin

definition less_eq_float64 :: "float64 \<Rightarrow> float64 \<Rightarrow> bool" where
  "less_eq_float64 a b =
     (case a of
        NInf \<Rightarrow> True
      | Finite x \<Rightarrow> (case b of NInf \<Rightarrow> False | Finite y \<Rightarrow> x \<le> y | PInf \<Rightarrow> True)
      | PInf \<Rightarrow> (case b of PInf \<Rightarrow> True | _ \<Rightarrow> False))"

definition less_float64 :: "float64 \<Rightarrow> float64 \<Rightarrow> bool" where
  "less_float64 a b = (a \<le> b \<and> \<not> b \<le> (a::float64))"

instance
proof
  fix a b c :: float64
  show "a < b \<longleftrightarrow> a \<le> b \<and> \<not> b \<le> a"
    by (simp add: less_float64_def)
  show "a \<le> a"
    by (simp add: less_eq_float64_def split: float64.splits)
  show "a \<le> b \<Longrightarrow> b \<le> c \<Longrightarrow> a \<le> c"
    by (auto simp: less_eq_float64_def split: float64.splits)
  show "a \<le> b \<Longrightarrow> b \<le> a \<Longrightarrow> a = b"
    by (auto simp: less_eq_float64_def split: float64.splits)
  show "a \<le> b \<or> b \<le> a"
    by (auto simp: less_eq_float64_def split: float64.splits)
qed

end

text \<open>
  Rounding a real number to binary64. A finite binary64 number is \<open>m * 2 ^ e\<close> with an
  integer \<open>m\<close>, \<open>\<bar>m\<bar> < 2 ^ 53\<close> and \<open>- 1074 \<le> e \<le> 971\<close>. For \<open>x \<noteq> 0\<close> with
  \<open>2 ^ k \<le> \<bar>x\<bar> < 2 ^ (k + 1)\<close> the neighbours of \<open>x\<close> are the multiples of \<open>2 ^ e\<close> for
  \<open>e = max (k - 52) (- 1074)\<close> (the second case is the subnormal range); \<open>x\<close> is rounded
  to the nearest multiple, to the one with the even multiplier when it lies half way,
  and to an infinity when the rounded magnitude reaches \<open>2 ^ 1024\<close>.
  \<open>bit_length\<close> is the number of binary digits of a natural number, and \<open>floor_log2 x\<close>
  is the \<open>k\<close> above, for \<open>0 < x\<close>.
\<close>

fun bit_length :: "nat \<Rightarrow> nat" where
  "bit_length n = (if n = 0 then 0 else Suc (bit_length (n div 2)))"

declare bit_length.simps [simp del]

definition floor_log2 :: "real \<Rightarrow> int" where
  "floor_log2 x =
     (if 1 \<le> x then int (bit_length (nat \<lfloor>x\<rfloor>)) - 1
      else - int (bit_length (nat (\<lceil>1 / x\<rceil> - 1))))"

definition pow2 :: "int \<Rightarrow> real" where
  "pow2 e = (if 0 \<le> e then 2 ^ nat e else 1 / 2 ^ nat (- e))"

definition round_half_even :: "real \<Rightarrow> int" where
  "round_half_even y =
     (let f = \<lfloor>y\<rfloor>; d = y - of_int f
      in if d < 1 / 2 then f else if 1 / 2 < d then f + 1 else if even f then f else f + 1)"

definition round64 :: "real \<Rightarrow> float64" where
  "round64 x =
     (if x = 0 then Finite 0
      else let e = max (floor_log2 \<bar>x\<bar> - 52) (- 1074);
               m = round_half_even (x / pow2 e);
               y = of_int m * pow2 e
           in if 2 ^ 1024 \<le> \<bar>y\<bar> then (if 0 < x then PInf else NInf) else Finite y)"

text \<open>
  The operations of the program on float64 cells. An \<^verbatim>\<open>int64\<close> column that meets a
  float in an operation is converted to float64 first (\<open>f64_of_int\<close>). The only
  division of the program is by the constant \<^verbatim>\<open>30.0\<close>: the divisor of \<open>f_div\<close> is a
  finite number other than zero.
\<close>

definition f64_of_int :: "int \<Rightarrow> float64 option" where
  "f64_of_int n = Some (round64 (of_int n))"

fun f_neg :: "float64 option \<Rightarrow> float64 option" where
  "f_neg (Some (Finite x)) = Some (Finite (- x))"
| "f_neg (Some PInf) = Some NInf"
| "f_neg (Some NInf) = Some PInf"
| "f_neg None = None"

fun f_add :: "float64 option \<Rightarrow> float64 option \<Rightarrow> float64 option" where
  "f_add (Some (Finite x)) (Some (Finite y)) = Some (round64 (x + y))"
| "f_add (Some PInf) (Some NInf) = None"
| "f_add (Some NInf) (Some PInf) = None"
| "f_add (Some PInf) (Some _) = Some PInf"
| "f_add (Some _) (Some PInf) = Some PInf"
| "f_add (Some NInf) (Some _) = Some NInf"
| "f_add (Some _) (Some NInf) = Some NInf"
| "f_add _ _ = None"

definition f_sub :: "float64 option \<Rightarrow> float64 option \<Rightarrow> float64 option" where
  "f_sub a b = f_add a (f_neg b)"

definition f_sign :: "float64 \<Rightarrow> int" where
  "f_sign a =
     (case a of Finite x \<Rightarrow> (if 0 < x then 1 else if x < 0 then - 1 else 0) | PInf \<Rightarrow> 1 | NInf \<Rightarrow> - 1)"

fun f_mul :: "float64 option \<Rightarrow> float64 option \<Rightarrow> float64 option" where
  "f_mul (Some (Finite x)) (Some (Finite y)) = Some (round64 (x * y))"
| "f_mul (Some a) (Some b) =
     (if f_sign a * f_sign b = 0 then None
      else if 0 < f_sign a * f_sign b then Some PInf else Some NInf)"
| "f_mul _ _ = None"

fun f_div :: "float64 option \<Rightarrow> real \<Rightarrow> float64 option" where
  "f_div (Some (Finite x)) y = Some (round64 (x / y))"
| "f_div (Some PInf) y = Some (if 0 < y then PInf else NInf)"
| "f_div (Some NInf) y = Some (if 0 < y then NInf else PInf)"
| "f_div None y = None"

text \<open>
  The sum of a group of float64 values, as the grouped \<^verbatim>\<open>sum\<close> of pandas computes it
  (\<^verbatim>\<open>group_sum\<close>, Kahan summation): the running sum \<^verbatim>\<open>sumx\<close> and the running
  \<^verbatim>\<open>compensation\<close> start at 0, and each value \<^verbatim>\<open>val\<close> does
  \<^verbatim>\<open>y = val - compensation; t = sumx + y; compensation = t - sumx - y; sumx = t\<close>,
  where a compensation that came out as NaN is reset to 0.
\<close>

definition kahan_add ::
  "float64 option \<times> float64 option \<Rightarrow> float64 option \<Rightarrow> float64 option \<times> float64 option" where
  "kahan_add acc val =
     (case acc of (sumx, compensation) \<Rightarrow>
        (let y = f_sub val compensation;
             t = f_add sumx y;
             c = f_sub (f_sub t sumx) y
         in (t, if c = None then Some (Finite 0) else c)))"

definition kahan_sum :: "float64 option list \<Rightarrow> float64 option" where
  "kahan_sum vals = fst (foldl kahan_add (Some (Finite 0), Some (Finite 0)) vals)"



section \<open>The three tables\<close>

text \<open>
  A DataFrame with a fixed schema is a list of typed rows, in index order. A cell that
  pandas may hold as \<^verbatim>\<open>NaN\<close>/\<^verbatim>\<open>None\<close>/\<^verbatim>\<open>NaT\<close> is an \<open>option\<close>, with \<open>None\<close> the
  absent value. Identifiers, set numbers and repetitions are Python integers
  (\<open>int\<close>); a weight is a finite float, given by the real number it denotes
  (\<^verbatim>\<open>float(weight)\<close> leaves a float as it is). The columns computed from it
  (\<^verbatim>\<open>volume\<close>, \<^verbatim>\<open>e1rm\<close>, the aggregated values) are float64 columns, of type
  \<open>float64 option\<close>.

  The columns \<^verbatim>\<open>week\<close> and \<^verbatim>\<open>year\<close> are not part of the declared schema of
  \<^verbatim>\<open>sessions\<close>: \<^verbatim>\<open>add_week_columns\<close> attaches them to a copy. A frame without them
  holds \<open>None\<close> there (what \<^verbatim>\<open>pd.concat\<close> fills in for a column that a row lacks).

  The only column type the code depends on is that of \<^verbatim>\<open>sessions["date"]\<close>: the
  \<^verbatim>\<open>.dt\<close> accessor exists on a \<^verbatim>\<open>datetime64\<close> column and raises AttributeError on a
  column of dtype \<^verbatim>\<open>object\<close>. A sessions frame carries this dtype.
\<close>

datatype dtype = ObjectDtype | Datetime64

datatype error = ValueError string | AttributeError string

record session =
  s_session_id :: int
  s_date :: timestamp
  s_group :: string
  s_notes :: "string option"
  s_week :: "int option"
  s_year :: "int option"

record sessions_df =
  s_rows :: "session list"
  s_date_dtype :: dtype

record exercise =
  e_exercise_id :: int
  e_session_id :: int
  e_exercise_name :: string
  e_muscle :: "string option"
  e_group :: "string option"

record set_row =
  t_set_id :: int
  t_exercise_id :: int
  t_set_number :: int
  t_weight :: real
  t_reps :: int
  t_rir :: "int option"
  t_comments :: "string option"

text \<open>
  \<^verbatim>\<open>pd.DataFrame(columns=[...])\<close>: no rows, every column of dtype \<^verbatim>\<open>object\<close>.
\<close>

definition empty_sessions_df :: sessions_df where
  "empty_sessions_df = \<lparr>s_rows = [], s_date_dtype = ObjectDtype\<rparr>"

definition empty_exercises_df :: "exercise list" where
  "empty_exercises_df = []"

definition empty_sets_df :: "set_row list" where
  "empty_sets_df = []"


section \<open>Identifiers\<close>

text \<open>
  \<^verbatim>\<open>_next_id(df, id_col)\<close>: 1 on a frame without rows, else the column's maximum plus
  one. \<^verbatim>\<open>Series.max()\<close> is the left-to-right reduction with \<open>max\<close>.
\<close>

definition next_id :: "'r list \<Rightarrow> ('r \<Rightarrow> int) \<Rightarrow> int" where
  "next_id df id_col = (case map id_col df of [] \<Rightarrow> 1 | x # xs \<Rightarrow> fold max xs x + 1)"


section \<open>Record builders\<close>

text \<open>
  \<^verbatim>\<open>pd.concat([df, pd.DataFrame([new_row])], ignore_index=True)\<close> builds a new frame: the
  rows of \<open>df\<close> followed by the new row. A frame without rows does not take part in
  the dtype of the result; a \<^verbatim>\<open>datetime64\<close> column joined with an \<^verbatim>\<open>object\<close> column that
  has rows gives \<^verbatim>\<open>object\<close>.
\<close>

definition concat_dtype :: "dtype \<Rightarrow> bool \<Rightarrow> dtype \<Rightarrow> dtype" where
  "concat_dtype old old_empty new =
     (if old_empty then new else if old = new then old else ObjectDtype)"

definition concat_session :: "sessions_df \<Rightarrow> session \<Rightarrow> sessions_df" where
  "concat_session sessions new_row =
     \<lparr>s_rows = s_rows sessions @ [new_row],
      s_date_dtype = concat_dtype (s_date_dtype sessions) (s_rows sessions = []) Datetime64\<rparr>"

definition add_session :: "sessions_df \<Rightarrow> timestamp \<Rightarrow> string \<Rightarrow> string \<Rightarrow> sessions_df \<times> int" where
  "add_session sessions date group_label notes =
     (let session_id = next_id (s_rows sessions) s_session_id;
          new_row = \<lparr>s_session_id = session_id, s_date = date, s_group = group_label,
                     s_notes = Some notes, s_week = None, s_year = None\<rparr>
      in (concat_session sessions new_row, session_id))"

definition add_exercise ::
  "exercise list \<Rightarrow> int \<Rightarrow> string \<Rightarrow> string option \<Rightarrow> string option \<Rightarrow> exercise list \<times> int" where
  "add_exercise exercises session_id exercise_name muscle group_label =
     (let exercise_id = next_id exercises e_exercise_id;
          new_row = \<lparr>e_exercise_id = exercise_id, e_session_id = session_id,
                     e_exercise_name = exercise_name,
                     e_muscle = Some (case muscle of None \<Rightarrow> '''' | Some m \<Rightarrow> m),
                     e_group = Some (case group_label of None \<Rightarrow> '''' | Some g \<Rightarrow> g)\<rparr>
      in (exercises @ [new_row], exercise_id))"

definition add_set ::
  "set_row list \<Rightarrow> int \<Rightarrow> int \<Rightarrow> real \<Rightarrow> int \<Rightarrow> int option \<Rightarrow> string \<Rightarrow> set_row list" where
  "add_set sets exercise_id set_number weight reps rir comments =
     (let set_id = next_id sets t_set_id;
          new_row = \<lparr>t_set_id = set_id, t_exercise_id = exercise_id, t_set_number = set_number,
                     t_weight = weight, t_reps = reps, t_rir = rir, t_comments = Some comments\<rparr>
      in sets @ [new_row])"


section \<open>Quick log\<close>

text \<open>
  \<^verbatim>\<open>quick_log_set\<close>: find the first session with this date and group or add one, find the
  first exercise of that session with this name or add one, then append the set.
  \<^verbatim>\<open>mask.any()\<close> is "the filtered frame has a row", \<^verbatim>\<open>.iloc[0]\<close> its first row.
\<close>

definition quick_log_set ::
  "sessions_df \<Rightarrow> exercise list \<Rightarrow> set_row list \<Rightarrow> timestamp \<Rightarrow> string \<Rightarrow> string \<Rightarrow> int \<Rightarrow> real \<Rightarrow> int
     \<Rightarrow> int option \<Rightarrow> string option \<Rightarrow> sessions_df \<times> exercise list \<times> set_row list" where
  "quick_log_set sessions exercises sets date day_group exercise_name set_number weight reps rir muscle =
     (let (sessions1, session_id) =
            (case filter (\<lambda>s. s_date s = date \<and> s_group s = day_group) (s_rows sessions) of
               s # _ \<Rightarrow> (sessions, s_session_id s)
             | [] \<Rightarrow> add_session sessions date day_group '''');
          (exercises1, exercise_id) =
            (case filter (\<lambda>e. e_session_id e = session_id \<and> e_exercise_name e = exercise_name) exercises of
               e # _ \<Rightarrow> (exercises, e_exercise_id e)
             | [] \<Rightarrow> add_exercise exercises session_id exercise_name muscle (Some day_group));
          sets1 = add_set sets exercise_id set_number weight reps rir ''''
      in (sessions1, exercises1, sets1))"


text \<open>
  A caller that logs through \<^verbatim>\<open>quick_log_set\<close> alone, from the empty tables, threading the
  returned tables into the next call.
\<close>

record log_call =
  c_date :: timestamp
  c_day_group :: string
  c_exercise_name :: string
  c_set_number :: int
  c_weight :: real
  c_reps :: int
  c_rir :: "int option"
  c_muscle :: "string option"

definition log_one ::
  "sessions_df \<times> exercise list \<times> set_row list \<Rightarrow> log_call \<Rightarrow> sessions_df \<times> exercise list \<times> set_row list" where
  "log_one tables c =
     (case tables of (sessions, exercises, sets) \<Rightarrow>
        quick_log_set sessions exercises sets (c_date c) (c_day_group c) (c_exercise_name c)
          (c_set_number c) (c_weight c) (c_reps c) (c_rir c) (c_muscle c))"

definition log_all :: "log_call list \<Rightarrow> sessions_df \<times> exercise list \<times> set_row list" where
  "log_all calls = foldl log_one (empty_sessions_df, empty_exercises_df, empty_sets_df) calls"

text \<open>The rows the uniqueness claims count.\<close>

definition sessions_matching :: "sessions_df \<Rightarrow> timestamp \<Rightarrow> string \<Rightarrow> session list" where
  "sessions_matching sessions date day_group =
     filter (\<lambda>s. s_date s = date \<and> s_group s = day_group) (s_rows sessions)"

definition exercises_matching :: "exercise list \<Rightarrow> int \<Rightarrow> string \<Rightarrow> exercise list" where
  "exercises_matching exercises session_id exercise_name =
     filter (\<lambda>e. e_session_id e = session_id \<and> e_exercise_name e = exercise_name) exercises"

definition sets_under :: "set_row list \<Rightarrow> int \<Rightarrow> set_row list" where
  "sets_under sets exercise_id = filter (\<lambda>t. t_exercise_id t = exercise_id) sets"





text \<open>
  Example data: a bench press set logged on 2 January 2024, and a sessions table in
  which \<^verbatim>\<open>add_session\<close>, called twice directly, has stored that day and group twice.
\<close>

definition bench_call :: "int \<Rightarrow> real \<Rightarrow> int \<Rightarrow> log_call" where
  "bench_call set_number weight reps =
     \<lparr>c_date = (2024, 1, 2, 0), c_day_group = ''Push'', c_exercise_name = ''Bench'',
      c_set_number = set_number, c_weight = weight, c_reps = reps, c_rir = None,
      c_muscle = Some ''chest''\<rparr>"

definition duplicate_sessions :: sessions_df where
  "duplicate_sessions =
     fst (add_session (fst (add_session empty_sessions_df (2024, 1, 2, 0) ''Push'' ''''))
            (2024, 1, 2, 0) ''Push'' '''')"





section \<open>Analytics\<close>

subsection \<open>The joined view\<close>

text \<open>
  \<^verbatim>\<open>sets.merge(exercises, on="exercise_id", how="left")\<close>: the rows of the left frame in
  their order; a left row with matches in the right frame appears once per match, in
  the right frame's order, and a left row without a match appears once with the right
  frame's columns absent. The second merge is keyed on \<^verbatim>\<open>session_id\<close>, a column of the
  first merge's right side: where it is absent no session has that key, since a
  session's identifier is an integer.
\<close>

definition merge_exercises :: "set_row list \<Rightarrow> exercise list \<Rightarrow> (set_row \<times> exercise option) list" where
  "merge_exercises sets exercises =
     concat (map (\<lambda>t.
       (let matches = filter (\<lambda>e. e_exercise_id e = t_exercise_id t) exercises
        in if matches = [] then [(t, None)] else map (\<lambda>e. (t, Some e)) matches)) sets)"

definition merge_sessions ::
  "(set_row \<times> exercise option) list \<Rightarrow> sessions_df
     \<Rightarrow> (set_row \<times> exercise option \<times> session option) list \<times> dtype" where
  "merge_sessions df sessions =
     (concat (map (\<lambda>(t, eo).
        (let matches = (case eo of None \<Rightarrow> []
                        | Some e \<Rightarrow> filter (\<lambda>s. s_session_id s = e_session_id e) (s_rows sessions))
         in if matches = [] then [(t, eo, None)] else map (\<lambda>s. (t, eo, Some s)) matches)) df),
      s_date_dtype sessions)"

text \<open>
  The columns of the joined frame. Both \<^verbatim>\<open>exercises\<close> and \<^verbatim>\<open>sessions\<close> have a column
  \<^verbatim>\<open>group\<close>: with \<^verbatim>\<open>suffixes=("", "_sess")\<close> the exercise's keeps its name and the
  session's becomes \<^verbatim>\<open>group_sess\<close>; the renaming then turns \<^verbatim>\<open>date\<close> into
  \<^verbatim>\<open>session_date\<close> and \<^verbatim>\<open>group\<close> (the exercise's) into \<^verbatim>\<open>session_group\<close>.
  \<^verbatim>\<open>volume\<close> and \<^verbatim>\<open>e1rm\<close> are the columns the analytics functions attach later.
\<close>

record joined_row =
  j_set_id :: int
  j_exercise_id :: int
  j_set_number :: int
  j_weight :: real
  j_reps :: int
  j_rir :: "int option"
  j_comments :: "string option"
  j_session_id :: "int option"
  j_exercise_name :: "string option"
  j_muscle :: "string option"
  j_session_group :: "string option"
  j_session_date :: "timestamp option"
  j_group_sess :: "string option"
  j_notes :: "string option"
  j_week :: "int option"
  j_year :: "int option"
  j_volume :: "float64 option"
  j_e1rm :: "float64 option"

record joined_df =
  j_rows :: "joined_row list"
  j_date_dtype :: dtype

definition joined_row_of :: "set_row \<times> exercise option \<times> session option \<Rightarrow> joined_row" where
  "joined_row_of x =
     (case x of (t, eo, so) \<Rightarrow>
       \<lparr>j_set_id = t_set_id t, j_exercise_id = t_exercise_id t, j_set_number = t_set_number t,
        j_weight = t_weight t, j_reps = t_reps t, j_rir = t_rir t, j_comments = t_comments t,
        j_session_id = map_option e_session_id eo,
        j_exercise_name = map_option e_exercise_name eo,
        j_muscle = Option.bind eo e_muscle,
        j_session_group = Option.bind eo e_group,
        j_session_date = map_option s_date so,
        j_group_sess = map_option s_group so,
        j_notes = Option.bind so s_notes,
        j_week = Option.bind so s_week,
        j_year = Option.bind so s_year,
        j_volume = None, j_e1rm = None\<rparr>)"

definition rename_columns ::
  "(set_row \<times> exercise option \<times> session option) list \<times> dtype \<Rightarrow> joined_df" where
  "rename_columns df = \<lparr>j_rows = map joined_row_of (fst df), j_date_dtype = snd df\<rparr>"

definition joined_sets :: "sessions_df \<Rightarrow> exercise list \<Rightarrow> set_row list \<Rightarrow> joined_df" where
  "joined_sets sessions exercises sets =
     (let df = merge_exercises sets exercises;
          df = merge_sessions df sessions;
          df = rename_columns df
      in df)"

subsection \<open>History\<close>

text \<open>
  \<^verbatim>\<open>df.loc[mask].sort_values(["session_date", "set_number"])\<close>: the rows whose
  \<^verbatim>\<open>exercise_name\<close> equals the name (an absent name equals nothing), sorted by the two
  keys. A sort on several columns is a lexicographic sort of the key codes and keeps
  the order of rows with equal keys; rows with an absent date come last
  (\<^verbatim>\<open>na_position="last"\<close>).
\<close>

definition history_key :: "joined_row \<Rightarrow> (nat \<times> timestamp) \<times> int" where
  "history_key r =
     ((case j_session_date r of None \<Rightarrow> (1, (0, 0, 0, 0)) | Some d \<Rightarrow> (0, d)), j_set_number r)"

definition loc_sort_values :: "joined_df \<Rightarrow> (joined_row \<Rightarrow> bool) \<Rightarrow> joined_df" where
  "loc_sort_values df row_mask = df\<lparr>j_rows := sort_key history_key (filter row_mask (j_rows df))\<rparr>"

definition exercise_history :: "sessions_df \<Rightarrow> exercise list \<Rightarrow> set_row list \<Rightarrow> string \<Rightarrow> joined_df" where
  "exercise_history sessions exercises sets exercise_name =
     (let df = joined_sets sessions exercises sets;
          row_mask = (\<lambda>r. j_exercise_name r = Some exercise_name)
      in loc_sort_values df row_mask)"

subsection \<open>Grouping and reduction\<close>

text \<open>
  \<^verbatim>\<open>df.groupby(keys)\<close> with its defaults (\<^verbatim>\<open>sort=True\<close>, \<^verbatim>\<open>dropna=True\<close>): one group per
  distinct key value, a row with an absent key in no group, the groups in ascending
  key order, the rows of a group in frame order. \<^verbatim>\<open>max\<close> and \<^verbatim>\<open>sum\<close> skip absent
  values (NaN); the \<^verbatim>\<open>max\<close> of no value is absent, the \<^verbatim>\<open>sum\<close> of no value is 0;
  \<^verbatim>\<open>count\<close> counts the values that are present. The \<^verbatim>\<open>sum\<close> of a float64 column
  is the compensated sum of its values in frame order.
\<close>

definition group_keys :: "('r \<Rightarrow> 'k::linorder option) \<Rightarrow> 'r list \<Rightarrow> 'k list" where
  "group_keys key df = sort (remdups (List.map_filter key df))"

definition group_rows :: "('r \<Rightarrow> 'k option) \<Rightarrow> 'r list \<Rightarrow> 'k \<Rightarrow> 'r list" where
  "group_rows key df k = filter (\<lambda>r. key r = Some k) df"

definition groupby :: "('r \<Rightarrow> 'k::linorder option) \<Rightarrow> 'r list \<Rightarrow> ('k \<times> 'r list) list" where
  "groupby key df = map (\<lambda>k. (k, group_rows key df k)) (group_keys key df)"

definition series_max :: "float64 option list \<Rightarrow> float64 option" where
  "series_max col = (case List.map_filter (\<lambda>v. v) col of [] \<Rightarrow> None | x # xs \<Rightarrow> Some (fold max xs x))"

definition series_sum :: "float64 option list \<Rightarrow> float64 option" where
  "series_sum col = kahan_sum (filter (\<lambda>v. v \<noteq> None) col)"

definition series_count :: "'a option list \<Rightarrow> nat" where
  "series_count col = length (List.map_filter (\<lambda>v. v) col)"

subsection \<open>Progress\<close>

text \<open>The two column assignments of \<^verbatim>\<open>exercise_progress\<close>, row by row.\<close>

definition set_volume :: "joined_df \<Rightarrow> joined_df" where
  \<comment> \<open>\<^verbatim>\<open>df["volume"] = df["weight"] * df["reps"]\<close>\<close>
  "set_volume df =
     df\<lparr>j_rows := map (\<lambda>r. r\<lparr>j_volume := f_mul (Some (Finite (j_weight r))) (f64_of_int (j_reps r))\<rparr>)
                    (j_rows df)\<rparr>"

definition set_e1rm :: "joined_df \<Rightarrow> joined_df" where
  \<comment> \<open>\<^verbatim>\<open>df["e1rm"] = df["weight"] * (1 + df["reps"] / 30.0)\<close>\<close>
  "set_e1rm df =
     df\<lparr>j_rows := map (\<lambda>r. r\<lparr>j_e1rm := f_mul (Some (Finite (j_weight r)))
                                          (f_add (Some (Finite 1)) (f_div (f64_of_int (j_reps r)) 30))\<rparr>)
                    (j_rows df)\<rparr>"

text \<open>
  \<^verbatim>\<open>df.groupby("session_date")[col].max().reset_index(name="value")\<close> and its \<^verbatim>\<open>sum\<close>
  sibling: one row (date, value) per group.
\<close>

definition groupby_date_max ::
  "joined_df \<Rightarrow> (joined_row \<Rightarrow> float64 option) \<Rightarrow> (timestamp \<times> float64 option) list" where
  "groupby_date_max df col =
     map (\<lambda>(d, g). (d, series_max (map col g))) (groupby j_session_date (j_rows df))"

definition groupby_date_sum ::
  "joined_df \<Rightarrow> (joined_row \<Rightarrow> float64 option) \<Rightarrow> (timestamp \<times> float64 option) list" where
  "groupby_date_sum df col =
     map (\<lambda>(d, g). (d, series_sum (map col g))) (groupby j_session_date (j_rows df))"

definition sort_by_date :: "(timestamp \<times> float64 option) list \<Rightarrow> (timestamp \<times> float64 option) list" where
  \<comment> \<open>\<^verbatim>\<open>agg.sort_values("session_date")\<close>\<close>
  "sort_by_date agg = sort_key fst agg"

datatype progress = History joined_df | Progress "(timestamp \<times> float64 option) list"

definition exercise_progress ::
  "sessions_df \<Rightarrow> exercise list \<Rightarrow> set_row list \<Rightarrow> string \<Rightarrow> string \<Rightarrow> error + progress" where
  "exercise_progress sessions exercises sets exercise_name metric =
     (let df = exercise_history sessions exercises sets exercise_name
      in if j_rows df = [] then Inr (History df)
         else if metric = ''top_set_weight'' then
           (let agg = groupby_date_max df (\<lambda>r. Some (Finite (j_weight r)))
            in Inr (Progress (sort_by_date agg)))
         else if metric = ''total_volume'' then
           (let df = set_volume df;
                agg = groupby_date_sum df j_volume
            in Inr (Progress (sort_by_date agg)))
         else if metric = ''e1rm'' then
           (let df = set_e1rm df;
                agg = groupby_date_max df j_e1rm
            in Inr (Progress (sort_by_date agg)))
         else Inl (ValueError (''Unknown metric: '' @ metric)))"

subsection \<open>Weekly volume\<close>

definition dt_accessor :: "dtype \<Rightarrow> error + unit" where
  "dt_accessor dt =
     (if dt = Datetime64 then Inr ()
      else Inl (AttributeError ''Can only use .dt accessor with datetimelike values''))"

definition set_s_week :: "sessions_df \<Rightarrow> sessions_df" where
  \<comment> \<open>\<^verbatim>\<open>s["week"] = s["date"].dt.isocalendar().week\<close>, on a \<^verbatim>\<open>datetime64\<close> column\<close>
  "set_s_week s = s\<lparr>s_rows := map (\<lambda>r. r\<lparr>s_week := Some (iso_week (s_date r))\<rparr>) (s_rows s)\<rparr>"

definition set_s_year :: "sessions_df \<Rightarrow> sessions_df" where
  \<comment> \<open>\<^verbatim>\<open>s["year"] = s["date"].dt.year\<close>\<close>
  "set_s_year s = s\<lparr>s_rows := map (\<lambda>r. r\<lparr>s_year := Some (ts_year (s_date r))\<rparr>) (s_rows s)\<rparr>"

definition add_week_columns :: "sessions_df \<Rightarrow> error + sessions_df" where
  "add_week_columns sessions =
     (let s = sessions
      in case dt_accessor (s_date_dtype s) of Inl err \<Rightarrow> Inl err
         | Inr _ \<Rightarrow>
           (let s = set_s_week s
            in case dt_accessor (s_date_dtype s) of Inl err \<Rightarrow> Inl err
               | Inr _ \<Rightarrow> Inr (set_s_year s)))"

definition set_j_week :: "joined_df \<Rightarrow> joined_df" where
  \<comment> \<open>\<^verbatim>\<open>df["week"] = df["session_date"].dt.isocalendar().week\<close>; \<^verbatim>\<open>NaT\<close> gives \<^verbatim>\<open>NA\<close>\<close>
  "set_j_week df =
     df\<lparr>j_rows := map (\<lambda>r. r\<lparr>j_week := map_option iso_week (j_session_date r)\<rparr>) (j_rows df)\<rparr>"

definition set_j_year :: "joined_df \<Rightarrow> joined_df" where
  \<comment> \<open>\<^verbatim>\<open>df["year"] = df["session_date"].dt.year\<close>; \<^verbatim>\<open>NaT\<close> gives \<^verbatim>\<open>NaN\<close>\<close>
  "set_j_year df =
     df\<lparr>j_rows := map (\<lambda>r. r\<lparr>j_year := map_option ts_year (j_session_date r)\<rparr>) (j_rows df)\<rparr>"

record weekly_row =
  w_year :: int
  w_week :: int
  w_muscle :: string
  w_sets :: nat
  w_volume :: "float64 option"

datatype weekly = Joined joined_df | Weekly "weekly_row list"

definition weekly_key :: "joined_row \<Rightarrow> (int \<times> int \<times> string) option" where
  "weekly_key r =
     (case (j_year r, j_week r, j_muscle r) of
        (Some y, Some w, Some m) \<Rightarrow> Some (y, w, m)
      | _ \<Rightarrow> None)"

definition groupby_weekly :: "joined_df \<Rightarrow> weekly_row list" where
  \<comment> \<open>\<^verbatim>\<open>df.groupby(["year", "week", "muscle"]).agg(sets=("set_id", "count"), volume=("volume", "sum")).reset_index()\<close>\<close>
  "groupby_weekly df =
     map (\<lambda>(k, g).
            \<lparr>w_year = fst k, w_week = fst (snd k), w_muscle = snd (snd k),
             w_sets = series_count (map (\<lambda>r. Some (j_set_id r)) g),
             w_volume = series_sum (map j_volume g)\<rparr>)
         (groupby weekly_key (j_rows df))"

definition weekly_volume_by_muscle :: "sessions_df \<Rightarrow> exercise list \<Rightarrow> set_row list \<Rightarrow> error + weekly" where
  "weekly_volume_by_muscle sessions exercises sets =
     (case add_week_columns sessions of Inl err \<Rightarrow> Inl err
      | Inr s \<Rightarrow>
        (let df = joined_sets s exercises sets
         in if j_rows df = [] then Inr (Joined df)
            else case dt_accessor (j_date_dtype df) of Inl err \<Rightarrow> Inl err
              | Inr _ \<Rightarrow>
                (let df = set_j_week df;
                     df = set_j_year df;
                     df = set_volume df;
                     weekly = groupby_weekly df
                 in Inr (Weekly weekly))))"


section \<open>Vocabulary of the properties, and example data\<close>

text \<open>
  The exercise a set refers to and the session that exercise refers to, when they exist:
  the rows the joined view annotates a set with.
\<close>

definition exercise_of :: "exercise list \<Rightarrow> set_row \<Rightarrow> exercise option" where
  "exercise_of exercises t = find (\<lambda>e. e_exercise_id e = t_exercise_id t) exercises"

definition session_of :: "sessions_df \<Rightarrow> exercise option \<Rightarrow> session option" where
  "session_of sessions eo =
     (case eo of None \<Rightarrow> None
      | Some e \<Rightarrow> find (\<lambda>s. s_session_id s = e_session_id e) (s_rows sessions))"

text \<open>
  Example data: two sessions in the same ISO week (Monday 30 December 2024 and Thursday
  2 January 2025, both in week 1 of ISO year 2025), one chest exercise in each, one set
  under each, and a third set whose exercise does not exist. The date column is
  \<^verbatim>\<open>datetime64\<close>, as \<^verbatim>\<open>read_csv(..., parse_dates=["date"])\<close> loads it.
\<close>

definition new_year_sessions :: sessions_df where
  "new_year_sessions =
     \<lparr>s_rows =
        [\<lparr>s_session_id = 1, s_date = (2024, 12, 30, 0), s_group = ''Push'', s_notes = None,
          s_week = None, s_year = None\<rparr>,
         \<lparr>s_session_id = 2, s_date = (2025, 1, 2, 0), s_group = ''Push'', s_notes = None,
          s_week = None, s_year = None\<rparr>],
      s_date_dtype = Datetime64\<rparr>"

definition new_year_exercises :: "exercise list" where
  "new_year_exercises =
     [\<lparr>e_exercise_id = 1, e_session_id = 1, e_exercise_name = ''Bench'',
       e_muscle = Some ''chest'', e_group = Some ''Push''\<rparr>,
      \<lparr>e_exercise_id = 2, e_session_id = 2, e_exercise_name = ''Bench'',
       e_muscle = Some ''chest'', e_group = Some ''Push''\<rparr>]"

definition new_year_sets :: "set_row list" where
  "new_year_sets =
     [\<lparr>t_set_id = 1, t_exercise_id = 1, t_set_number = 1, t_weight = 100, t_reps = 5,
       t_rir = None, t_comments = None\<rparr>,
      \<lparr>t_set_id = 2, t_exercise_id = 2, t_set_number = 1, t_weight = 90, t_reps = 8,
       t_rir = None, t_comments = None\<rparr>]"

definition dangling_set :: set_row where
  "dangling_set =
     \<lparr>t_set_id = 3, t_exercise_id = 7, t_set_number = 1, t_weight = 60, t_reps = 10,
      t_rir = None, t_comments = None\<rparr>"


text \<open>
  Example data for the order of a history: an exercise under session 9, which does not
  exist (its sets have no session date), and eight sets of which the seven under an
  existing exercise are bench press sets. The sets 5 and 2 agree on date and set number,
  and so do the undated sets 7 and 3; in the table the set 5 stands before the set 2 and
  the set 7 before the set 3.
\<close>

definition orphan_exercise :: exercise where
  "orphan_exercise =
     \<lparr>e_exercise_id = 5, e_session_id = 9, e_exercise_name = ''Bench'',
      e_muscle = Some ''chest'', e_group = Some ''Push''\<rparr>"

definition set_at :: "int \<Rightarrow> int \<Rightarrow> int \<Rightarrow> real \<Rightarrow> set_row" where
  "set_at set_id exercise_id set_number weight =
     \<lparr>t_set_id = set_id, t_exercise_id = exercise_id, t_set_number = set_number,
      t_weight = weight, t_reps = 5, t_rir = None, t_comments = None\<rparr>"

definition tie_sets :: "set_row list" where
  "tie_sets =
     [set_at 1 5 2 60, set_at 5 2 1 95, set_at 7 5 1 70, set_at 4 1 2 85,
      set_at 2 2 1 90, set_at 6 1 1 80, set_at 3 5 1 65, set_at 8 7 1 50]"


text \<open>
  The real numbers that are finite float64 numbers are those that rounding leaves as
  they are. No conversion, product or partial sum of the volume of a list of rows is
  rounded when the repetitions, the products weight * reps and the sums of the
  products over every initial segment of the list are float64 numbers.
\<close>

definition is_float64 :: "real \<Rightarrow> bool" where
  "is_float64 x \<longleftrightarrow> round64 x = Finite x"

definition unrounded :: "joined_row list \<Rightarrow> bool" where
  "unrounded rows \<longleftrightarrow>
     (\<forall>r \<in> set rows. is_float64 (real_of_int (j_reps r))
                      \<and> is_float64 (j_weight r * real_of_int (j_reps r)))
     \<and> (\<forall>n \<le> length rows. is_float64 (\<Sum>r\<leftarrow>take n rows. j_weight r * real_of_int (j_reps r)))"


text \<open>
  The float64 numbers that the literals \<^verbatim>\<open>0.1\<close> and \<^verbatim>\<open>0.2\<close> denote.
\<close>

definition tenth :: real where
  "tenth = 3602879701896397 / 36028797018963968"

definition fifth :: real where
  "fifth = 3602879701896397 / 18014398509481984"

text \<open>A float64 number whose double is beyond the float64 range.\<close>

definition huge :: real where
  "huge = 2 ^ 1023"


text \<open>
  The group of a joined row in the weekly report: the calendar year, the ISO week and
  the muscle, when the row has a session date and a muscle.
\<close>

definition week_group :: "joined_row \<Rightarrow> (int \<times> int \<times> string) option" where
  "week_group r =
     (case (j_session_date r, j_muscle r) of
        (Some d, Some m) \<Rightarrow> Some (ts_year d, iso_week d, m)
      | _ \<Rightarrow> None)"

text \<open>
  The row-wise effect of \<^verbatim>\<open>add_week_columns\<close> on a session, and of the three column
  assignments of \<^verbatim>\<open>weekly_volume_by_muscle\<close> on a joined row.
\<close>

definition with_week :: "session \<Rightarrow> session" where
  "with_week s = s\<lparr>s_week := Some (iso_week (s_date s)), s_year := Some (ts_year (s_date s))\<rparr>"

definition weekly_columns :: "joined_row \<Rightarrow> joined_row" where
  "weekly_columns r =
     r\<lparr>j_week := map_option iso_week (j_session_date r),
       j_year := map_option ts_year (j_session_date r),
       j_volume := f_mul (Some (Finite (j_weight r))) (f64_of_int (j_reps r))\<rparr>"

text \<open>
  Example data: an exercise that \<^verbatim>\<open>add_exercise\<close> stores without a muscle (so with the
  empty string) under session 9, which does not exist, with one set under it; and an
  exercise with the empty string as muscle under session 1, with one set under it.
\<close>

definition plank_exercises :: "exercise list" where
  "plank_exercises = fst (add_exercise empty_exercises_df 9 ''Plank'' None None)"

definition plank_sets :: "set_row list" where
  "plank_sets = add_set empty_sets_df 1 1 60 10 None ''''"

definition core_exercise :: exercise where
  "core_exercise =
     \<lparr>e_exercise_id = 3, e_session_id = 1, e_exercise_name = ''Plank'', e_muscle = Some '''',
      e_group = Some ''Push''\<rparr>"

definition core_set :: set_row where
  "core_set =
     \<lparr>t_set_id = 4, t_exercise_id = 3, t_set_number = 1, t_weight = 10, t_reps = 30,
      t_rir = None, t_comments = None\<rparr>"


section \<open>Frames as objects\<close>

text \<open>
  The definitions above give the frame a call computes. A Python caller holds references
  to frame objects, and a statement either builds a new object (\<^verbatim>\<open>pd.concat\<close>,
  \<^verbatim>\<open>merge\<close>, \<^verbatim>\<open>rename\<close>, \<^verbatim>\<open>copy\<close>, \<^verbatim>\<open>.loc[mask]\<close>, \<^verbatim>\<open>sort_values\<close>, a
  \<^verbatim>\<open>groupby\<close> aggregation) or writes into an existing one (\<^verbatim>\<open>df[col] = ...\<close>). The
  heap holds the frame objects by kind; a reference is an index into the list of its
  kind, and a new object takes the next index. Every assignment statement and every
  \<^verbatim>\<open>return\<close> expression of the source that builds a frame allocates one object, and
  rebinding a local name changes no object. Each \<open>_obj\<close> function follows its source
  function statement by statement and returns the heap it leaves, also when it raises.
\<close>

record heap =
  h_sessions :: "sessions_df list"
  h_exercises :: "exercise list list"
  h_sets :: "set_row list list"
  h_merged :: "(set_row \<times> exercise option) list list"
  h_merged_sess :: "((set_row \<times> exercise option \<times> session option) list \<times> dtype) list"
  h_joined :: "joined_df list"
  h_progress :: "(timestamp \<times> float64 option) list list"
  h_weekly :: "weekly_row list list"

definition new_sessions :: "sessions_df \<Rightarrow> heap \<Rightarrow> nat \<times> heap" where
  "new_sessions v h = (length (h_sessions h), h\<lparr>h_sessions := h_sessions h @ [v]\<rparr>)"

definition new_exercises :: "exercise list \<Rightarrow> heap \<Rightarrow> nat \<times> heap" where
  "new_exercises v h = (length (h_exercises h), h\<lparr>h_exercises := h_exercises h @ [v]\<rparr>)"

definition new_sets :: "set_row list \<Rightarrow> heap \<Rightarrow> nat \<times> heap" where
  "new_sets v h = (length (h_sets h), h\<lparr>h_sets := h_sets h @ [v]\<rparr>)"

definition new_merged :: "(set_row \<times> exercise option) list \<Rightarrow> heap \<Rightarrow> nat \<times> heap" where
  "new_merged v h = (length (h_merged h), h\<lparr>h_merged := h_merged h @ [v]\<rparr>)"

definition new_merged_sess ::
  "(set_row \<times> exercise option \<times> session option) list \<times> dtype \<Rightarrow> heap \<Rightarrow> nat \<times> heap" where
  "new_merged_sess v h = (length (h_merged_sess h), h\<lparr>h_merged_sess := h_merged_sess h @ [v]\<rparr>)"

definition new_joined :: "joined_df \<Rightarrow> heap \<Rightarrow> nat \<times> heap" where
  "new_joined v h = (length (h_joined h), h\<lparr>h_joined := h_joined h @ [v]\<rparr>)"

definition new_progress :: "(timestamp \<times> float64 option) list \<Rightarrow> heap \<Rightarrow> nat \<times> heap" where
  "new_progress v h = (length (h_progress h), h\<lparr>h_progress := h_progress h @ [v]\<rparr>)"

definition new_weekly :: "weekly_row list \<Rightarrow> heap \<Rightarrow> nat \<times> heap" where
  "new_weekly v h = (length (h_weekly h), h\<lparr>h_weekly := h_weekly h @ [v]\<rparr>)"

text \<open>\<^verbatim>\<open>df[col] = values\<close> writes into the object \<open>df\<close> refers to.\<close>

definition update_sessions :: "nat \<Rightarrow> (sessions_df \<Rightarrow> sessions_df) \<Rightarrow> heap \<Rightarrow> heap" where
  "update_sessions a f h = h\<lparr>h_sessions := (h_sessions h)[a := f (h_sessions h ! a)]\<rparr>"

definition update_joined :: "nat \<Rightarrow> (joined_df \<Rightarrow> joined_df) \<Rightarrow> heap \<Rightarrow> heap" where
  "update_joined a f h = h\<lparr>h_joined := (h_joined h)[a := f (h_joined h ! a)]\<rparr>"

definition add_session_obj :: "nat \<Rightarrow> timestamp \<Rightarrow> string \<Rightarrow> string \<Rightarrow> heap \<Rightarrow> (nat \<times> int) \<times> heap" where
  "add_session_obj sessions date group_label notes h =
     (let session_id = next_id (s_rows (h_sessions h ! sessions)) s_session_id;
          new_row = \<lparr>s_session_id = session_id, s_date = date, s_group = group_label,
                     s_notes = Some notes, s_week = None, s_year = None\<rparr>;
          (sessions, h) = new_sessions (concat_session (h_sessions h ! sessions) new_row) h
      in ((sessions, session_id), h))"

definition add_exercise_obj ::
  "nat \<Rightarrow> int \<Rightarrow> string \<Rightarrow> string option \<Rightarrow> string option \<Rightarrow> heap \<Rightarrow> (nat \<times> int) \<times> heap" where
  "add_exercise_obj exercises session_id exercise_name muscle group_label h =
     (let exercise_id = next_id (h_exercises h ! exercises) e_exercise_id;
          new_row = \<lparr>e_exercise_id = exercise_id, e_session_id = session_id,
                     e_exercise_name = exercise_name,
                     e_muscle = Some (case muscle of None \<Rightarrow> '''' | Some m \<Rightarrow> m),
                     e_group = Some (case group_label of None \<Rightarrow> '''' | Some g \<Rightarrow> g)\<rparr>;
          (exercises, h) = new_exercises (h_exercises h ! exercises @ [new_row]) h
      in ((exercises, exercise_id), h))"

definition add_set_obj ::
  "nat \<Rightarrow> int \<Rightarrow> int \<Rightarrow> real \<Rightarrow> int \<Rightarrow> int option \<Rightarrow> string \<Rightarrow> heap \<Rightarrow> nat \<times> heap" where
  "add_set_obj sets exercise_id set_number weight reps rir comments h =
     (let set_id = next_id (h_sets h ! sets) t_set_id;
          new_row = \<lparr>t_set_id = set_id, t_exercise_id = exercise_id, t_set_number = set_number,
                     t_weight = weight, t_reps = reps, t_rir = rir, t_comments = Some comments\<rparr>
      in new_sets (h_sets h ! sets @ [new_row]) h)"

definition quick_log_set_obj ::
  "nat \<Rightarrow> nat \<Rightarrow> nat \<Rightarrow> timestamp \<Rightarrow> string \<Rightarrow> string \<Rightarrow> int \<Rightarrow> real \<Rightarrow> int \<Rightarrow> int option \<Rightarrow> string option
     \<Rightarrow> heap \<Rightarrow> (nat \<times> nat \<times> nat) \<times> heap" where
  "quick_log_set_obj sessions exercises sets date day_group exercise_name set_number weight reps rir muscle h =
     (let ((sessions1, session_id), h) =
            (case filter (\<lambda>s. s_date s = date \<and> s_group s = day_group) (s_rows (h_sessions h ! sessions)) of
               s # _ \<Rightarrow> ((sessions, s_session_id s), h)
             | [] \<Rightarrow> add_session_obj sessions date day_group '''' h);
          ((exercises1, exercise_id), h) =
            (case filter (\<lambda>e. e_session_id e = session_id \<and> e_exercise_name e = exercise_name)
                    (h_exercises h ! exercises) of
               e # _ \<Rightarrow> ((exercises, e_exercise_id e), h)
             | [] \<Rightarrow> add_exercise_obj exercises session_id exercise_name muscle (Some day_group) h);
          (sets1, h) = add_set_obj sets exercise_id set_number weight reps rir '''' h
      in ((sessions1, exercises1, sets1), h))"

definition joined_sets_obj :: "nat \<Rightarrow> nat \<Rightarrow> nat \<Rightarrow> heap \<Rightarrow> nat \<times> heap" where
  "joined_sets_obj sessions exercises sets h =
     (let (df, h) = new_merged (merge_exercises (h_sets h ! sets) (h_exercises h ! exercises)) h;
          (df, h) = new_merged_sess (merge_sessions (h_merged h ! df) (h_sessions h ! sessions)) h;
          (df, h) = new_joined (rename_columns (h_merged_sess h ! df)) h
      in (df, h))"

definition exercise_history_obj :: "nat \<Rightarrow> nat \<Rightarrow> nat \<Rightarrow> string \<Rightarrow> heap \<Rightarrow> nat \<times> heap" where
  "exercise_history_obj sessions exercises sets exercise_name h =
     (let (df, h) = joined_sets_obj sessions exercises sets h;
          row_mask = (\<lambda>r. j_exercise_name r = Some exercise_name)
      in new_joined (loc_sort_values (h_joined h ! df) row_mask) h)"

datatype progress_ref = History_ref nat | Progress_ref nat

definition exercise_progress_obj ::
  "nat \<Rightarrow> nat \<Rightarrow> nat \<Rightarrow> string \<Rightarrow> string \<Rightarrow> heap \<Rightarrow> (error + progress_ref) \<times> heap" where
  "exercise_progress_obj sessions exercises sets exercise_name metric h =
     (let (df, h) = exercise_history_obj sessions exercises sets exercise_name h
      in if j_rows (h_joined h ! df) = [] then (Inr (History_ref df), h)
         else if metric = ''top_set_weight'' then
           (let (agg, h) = new_progress (groupby_date_max (h_joined h ! df) (\<lambda>r. Some (Finite (j_weight r)))) h;
                (res, h) = new_progress (sort_by_date (h_progress h ! agg)) h
            in (Inr (Progress_ref res), h))
         else if metric = ''total_volume'' then
           (let h = update_joined df set_volume h;
                (agg, h) = new_progress (groupby_date_sum (h_joined h ! df) j_volume) h;
                (res, h) = new_progress (sort_by_date (h_progress h ! agg)) h
            in (Inr (Progress_ref res), h))
         else if metric = ''e1rm'' then
           (let h = update_joined df set_e1rm h;
                (agg, h) = new_progress (groupby_date_max (h_joined h ! df) j_e1rm) h;
                (res, h) = new_progress (sort_by_date (h_progress h ! agg)) h
            in (Inr (Progress_ref res), h))
         else (Inl (ValueError (''Unknown metric: '' @ metric)), h))"

definition add_week_columns_obj :: "nat \<Rightarrow> heap \<Rightarrow> (error + nat) \<times> heap" where
  "add_week_columns_obj sessions h =
     (let (s, h) = new_sessions (h_sessions h ! sessions) h
      in case dt_accessor (s_date_dtype (h_sessions h ! s)) of Inl err \<Rightarrow> (Inl err, h)
         | Inr _ \<Rightarrow>
           (let h = update_sessions s set_s_week h
            in case dt_accessor (s_date_dtype (h_sessions h ! s)) of Inl err \<Rightarrow> (Inl err, h)
               | Inr _ \<Rightarrow> (let h = update_sessions s set_s_year h in (Inr s, h))))"

datatype weekly_ref = Joined_ref nat | Weekly_ref nat

definition weekly_volume_by_muscle_obj :: "nat \<Rightarrow> nat \<Rightarrow> nat \<Rightarrow> heap \<Rightarrow> (error + weekly_ref) \<times> heap" where
  "weekly_volume_by_muscle_obj sessions exercises sets h =
     (case add_week_columns_obj sessions h of
        (Inl err, h) \<Rightarrow> (Inl err, h)
      | (Inr s, h) \<Rightarrow>
        (let (df, h) = joined_sets_obj s exercises sets h
         in if j_rows (h_joined h ! df) = [] then (Inr (Joined_ref df), h)
            else case dt_accessor (j_date_dtype (h_joined h ! df)) of Inl err \<Rightarrow> (Inl err, h)
              | Inr _ \<Rightarrow>
                (let h = update_joined df set_j_week h;
                     h = update_joined df set_j_year h;
                     h = update_joined df set_volume h;
                     (weekly, h) = new_weekly (groupby_weekly (h_joined h ! df)) h
                 in (Inr (Weekly_ref weekly), h))))"

text \<open>
  Every object of \<open>h\<close> is in \<open>h'\<close> at the same reference with the same rows: the call
  that led from \<open>h\<close> to \<open>h'\<close> wrote into no object that existed before it.
\<close>

definition unchanged :: "heap \<Rightarrow> heap \<Rightarrow> bool" where
  "unchanged h h' \<longleftrightarrow>
     take (length (h_sessions h)) (h_sessions h') = h_sessions h
     \<and> take (length (h_exercises h)) (h_exercises h') = h_exercises h
     \<and> take (length (h_sets h)) (h_sets h') = h_sets h
     \<and> take (length (h_merged h)) (h_merged h') = h_merged h
     \<and> take (length (h_merged_sess h)) (h_merged_sess h') = h_merged_sess h
     \<and> take (length (h_joined h)) (h_joined h') = h_joined h
     \<and> take (length (h_progress h)) (h_progress h') = h_progress h
     \<and> take (length (h_weekly h)) (h_weekly h') = h_weekly h"

text \<open>The frame a returned reference stands for.\<close>

definition progress_at :: "heap \<Rightarrow> progress_ref \<Rightarrow> progress" where
  "progress_at h r = (case r of History_ref a \<Rightarrow> History (h_joined h ! a)
                      | Progress_ref a \<Rightarrow> Progress (h_progress h ! a))"

definition weekly_at :: "heap \<Rightarrow> weekly_ref \<Rightarrow> weekly" where
  "weekly_at h r = (case r of Joined_ref a \<Rightarrow> Joined (h_joined h ! a)
                    | Weekly_ref a \<Rightarrow> Weekly (h_weekly h ! a))"


text \<open>A caller's heap that holds the three tables and nothing else, each at reference 0.\<close>

definition heap_of :: "sessions_df \<Rightarrow> exercise list \<Rightarrow> set_row list \<Rightarrow> heap" where
  "heap_of sessions exercises sets =
     \<lparr>h_sessions = [sessions], h_exercises = [exercises], h_sets = [sets], h_merged = [],
      h_merged_sess = [], h_joined = [], h_progress = [], h_weekly = []\<rparr>"


section \<open>Identity allocation\<close>

lemma fold_max_Max: "fold max xs (x::int) = Max (set (x # xs))"
  by (rule Max.set_eq_fold [symmetric])

lemma next_id_Nil: "next_id [] id_col = 1"
  by (simp add: next_id_def)

lemma next_id_Max: "df \<noteq> [] \<Longrightarrow> next_id df id_col = Max (id_col ` set df) + 1"
proof (cases df)
  case Nil
  assume "df \<noteq> []"
  with Nil show ?thesis by simp
next
  case (Cons r rs)
  have "next_id df id_col = fold max (map id_col rs) (id_col r) + 1"
    by (simp add: next_id_def Cons)
  also have "fold max (map id_col rs) (id_col r) = Max (set (id_col r # map id_col rs))"
    by (rule fold_max_Max)
  also have "set (id_col r # map id_col rs) = id_col ` set df"
    by (simp add: Cons)
  finally show ?thesis .
qed

lemma next_id_greater: "r \<in> set df \<Longrightarrow> id_col r < next_id df id_col"
proof -
  assume r: "r \<in> set df"
  then have "df \<noteq> []" by auto
  then have "next_id df id_col = Max (id_col ` set df) + 1" by (rule next_id_Max)
  moreover have "id_col r \<le> Max (id_col ` set df)" using r by simp
  ultimately show ?thesis by simp
qed

text \<open>
  Claim C3. \<^verbatim>\<open>_next_id\<close> returns 1 on a table without rows and otherwise the maximum
  of the identifier column plus one; hence, once a row whose identifier \<open>k\<close> is at
  least every identifier of the table has been appended, the next call returns
  \<open>k + 1\<close>, and the identifier that \<^verbatim>\<open>add_session\<close> hands out is followed by its
  successor. The function is a HOL function of the rows alone: it reads the column
  and has no effect.
\<close>

theorem next_id_spec:
  "next_id [] id_col = 1
   \<and> (df \<noteq> [] \<longrightarrow> next_id df id_col = Max (id_col ` set df) + 1)
   \<and> ((\<forall>r \<in> set df. id_col r \<le> id_col row) \<longrightarrow> next_id (df @ [row]) id_col = id_col row + 1)
   \<and> next_id (s_rows (fst (add_session sessions date group_label notes))) s_session_id
       = snd (add_session sessions date group_label notes) + 1"
proof (intro conjI impI)
  show "next_id [] id_col = 1" by (rule next_id_Nil)
next
  assume "df \<noteq> []"
  then show "next_id df id_col = Max (id_col ` set df) + 1" by (rule next_id_Max)
next
  assume le: "\<forall>r \<in> set df. id_col r \<le> id_col row"
  have "next_id (df @ [row]) id_col = Max (id_col ` set (df @ [row])) + 1"
    by (rule next_id_Max) simp
  also have "Max (id_col ` set (df @ [row])) = id_col row"
    using le by (intro Max_eqI) auto
  finally show "next_id (df @ [row]) id_col = id_col row + 1" .
next
  define k where "k = next_id (s_rows sessions) s_session_id"
  define new_row where "new_row = \<lparr>s_session_id = k, s_date = date, s_group = group_label,
    s_notes = Some notes, s_week = None, s_year = None\<rparr>"
  have rows: "s_rows (fst (add_session sessions date group_label notes)) = s_rows sessions @ [new_row]"
    and ret: "snd (add_session sessions date group_label notes) = k"
    by (simp_all add: add_session_def concat_session_def Let_def k_def new_row_def)
  have le: "\<forall>r \<in> set (s_rows sessions). s_session_id r \<le> k"
    unfolding k_def using next_id_greater [of _ "s_rows sessions" s_session_id]
    by (auto intro: less_imp_le)
  have "next_id (s_rows sessions @ [new_row]) s_session_id
          = Max (s_session_id ` set (s_rows sessions @ [new_row])) + 1"
    by (rule next_id_Max) simp
  also have "Max (s_session_id ` set (s_rows sessions @ [new_row])) = k"
    using le by (intro Max_eqI) (auto simp: new_row_def)
  finally show "next_id (s_rows (fst (add_session sessions date group_label notes))) s_session_id
       = snd (add_session sessions date group_label notes) + 1"
    by (simp add: rows ret)
qed

theorem next_id_spec_witness:
  "next_id [] (\<lambda>x::int. x) = 1
   \<and> next_id [3, 5] (\<lambda>x::int. x) = 6
   \<and> next_id ([3, 5] @ [7]) (\<lambda>x::int. x) = 8
   \<and> snd (add_session empty_sessions_df (2024, 1, 2, 0) ''Push'' []) = 1
   \<and> next_id (s_rows (fst (add_session empty_sessions_df (2024, 1, 2, 0) ''Push'' []))) s_session_id = 2"
  using next_id_spec [of "\<lambda>x::int. x" "[3, 5]" 7 empty_sessions_df "(2024, 1, 2, 0)" "''Push''" "[]"]
  by (simp add: add_session_def empty_sessions_df_def next_id_def)


section \<open>Quick log: one session, one exercise, two sets\<close>


















lemmas quick_log_eval =
  log_all_def log_one_def quick_log_set_def add_session_def add_exercise_def add_set_def
  concat_session_def concat_dtype_def next_id_def bench_call_def duplicate_sessions_def
  empty_sessions_df_def empty_exercises_df_def empty_sets_df_def
  sessions_matching_def exercises_matching_def sets_under_def Let_def




section \<open>The joined view\<close>

lemma filter_unique_key:
  "distinct (map key xs) \<Longrightarrow>
     filter (\<lambda>x. key x = k) xs = (case find (\<lambda>x. key x = k) xs of None \<Rightarrow> [] | Some x \<Rightarrow> [x])"
proof (induction xs)
  case Nil
  then show ?case by simp
next
  case (Cons x xs)
  show ?case
  proof (cases "key x = k")
    case True
    then have "filter (\<lambda>x. key x = k) xs = []"
      using Cons.prems by (auto simp: filter_empty_conv image_iff)
    then show ?thesis using True by simp
  next
    case False
    then show ?thesis using Cons by simp
  qed
qed

lemma concat_map_singleton: "concat (map (\<lambda>x. [f x]) xs) = map f xs"
  by (induction xs) auto

lemma merge_exercises_unique:
  assumes "distinct (map e_exercise_id exercises)"
  shows "merge_exercises sets exercises = map (\<lambda>t. (t, exercise_of exercises t)) sets"
proof -
  have "(let matches = filter (\<lambda>e. e_exercise_id e = t_exercise_id t) exercises
         in if matches = [] then [(t, None)] else map (\<lambda>e. (t, Some e)) matches)
        = [(t, exercise_of exercises t)]" for t
    unfolding filter_unique_key [OF assms] exercise_of_def
    by (simp split: option.splits)
  then show ?thesis
    unfolding merge_exercises_def by (simp add: concat_map_singleton)
qed

lemma merge_sessions_unique:
  assumes "distinct (map s_session_id (s_rows sessions))"
  shows "fst (merge_sessions df sessions) = map (\<lambda>(t, eo). (t, eo, session_of sessions eo)) df"
proof -
  have one: "(if (case eo of None \<Rightarrow> []
                  | Some e \<Rightarrow> filter (\<lambda>s. s_session_id s = e_session_id e) (s_rows sessions)) = []
              then [(t, eo, None)]
              else map (\<lambda>s. (t, eo, Some s))
                     (case eo of None \<Rightarrow> []
                      | Some e \<Rightarrow> filter (\<lambda>s. s_session_id s = e_session_id e) (s_rows sessions)))
        = [(t, eo, session_of sessions eo)]" for t eo
    unfolding filter_unique_key [OF assms] session_of_def
    by (simp split: option.splits)
  show ?thesis
    unfolding merge_sessions_def
    by (induction df) (simp_all add: Let_def split_def one)
qed

lemma joined_sets_unique:
  assumes "distinct (map e_exercise_id exercises)"
    and "distinct (map s_session_id (s_rows sessions))"
  shows "j_rows (joined_sets sessions exercises sets) =
     map (\<lambda>t. joined_row_of (t, exercise_of exercises t, session_of sessions (exercise_of exercises t))) sets"
  unfolding joined_sets_def Let_def rename_columns_def
  by (simp add: merge_sessions_unique [OF assms(2)] merge_exercises_unique [OF assms(1)] comp_def)

text \<open>
  Claim C8. When exercise identifiers are unique in \<^verbatim>\<open>exercises\<close> and session identifiers
  are unique in \<^verbatim>\<open>sessions\<close>, the joined view has exactly one row per set row, in the
  order of \<^verbatim>\<open>sets\<close>: row \<open>i\<close> carries the columns of set \<open>i\<close>, the name, muscle and
  group of its exercise, and the date, group and notes of that exercise's session. Where
  the exercise does not exist, all exercise and session columns are absent; where the
  exercise exists and its session does not, the session columns are absent.
\<close>

theorem joined_sets_one_row_per_set:
  assumes "distinct (map e_exercise_id exercises)"
    and "distinct (map s_session_id (s_rows sessions))"
  shows "length (j_rows (joined_sets sessions exercises sets)) = length sets
    \<and> (\<forall>i < length sets.
         (let r = j_rows (joined_sets sessions exercises sets) ! i; t = sets ! i
          in j_set_id r = t_set_id t \<and> j_exercise_id r = t_exercise_id t
             \<and> j_set_number r = t_set_number t \<and> j_weight r = t_weight t \<and> j_reps r = t_reps t
             \<and> j_rir r = t_rir t \<and> j_comments r = t_comments t
             \<and> (case exercise_of exercises t of
                  None \<Rightarrow>
                    j_exercise_name r = None \<and> j_muscle r = None \<and> j_session_group r = None
                    \<and> j_session_id r = None \<and> j_session_date r = None \<and> j_group_sess r = None
                    \<and> j_notes r = None
                | Some e \<Rightarrow>
                    j_exercise_name r = Some (e_exercise_name e) \<and> j_muscle r = e_muscle e
                    \<and> j_session_group r = e_group e \<and> j_session_id r = Some (e_session_id e)
                    \<and> (case session_of sessions (Some e) of
                         None \<Rightarrow> j_session_date r = None \<and> j_group_sess r = None \<and> j_notes r = None
                       | Some s \<Rightarrow>
                           j_session_date r = Some (s_date s) \<and> j_group_sess r = Some (s_group s)
                           \<and> j_notes r = s_notes s))))"
  unfolding joined_sets_unique [OF assms]
  by (simp add: joined_row_of_def Let_def session_of_def split: option.splits)

lemmas new_year_eval =
  new_year_sessions_def new_year_exercises_def new_year_sets_def dangling_set_def

theorem joined_sets_one_row_per_set_witness:
  "distinct (map e_exercise_id new_year_exercises)
   \<and> distinct (map s_session_id (s_rows new_year_sessions))
   \<and> length (j_rows (joined_sets new_year_sessions new_year_exercises (new_year_sets @ [dangling_set]))) = 3
   \<and> map j_exercise_name (j_rows (joined_sets new_year_sessions new_year_exercises (new_year_sets @ [dangling_set])))
       = [Some ''Bench'', Some ''Bench'', None]
   \<and> map j_session_date (j_rows (joined_sets new_year_sessions new_year_exercises (new_year_sets @ [dangling_set])))
       = [Some (2024, 12, 30, 0), Some (2025, 1, 2, 0), None]"
  using joined_sets_one_row_per_set [of new_year_exercises new_year_sessions "new_year_sets @ [dangling_set]"]
  by (simp add: new_year_eval joined_sets_def merge_exercises_def merge_sessions_def
      rename_columns_def joined_row_of_def Let_def)


section \<open>History\<close>

lemma exercise_history_rows:
  "j_rows (exercise_history sessions exercises sets exercise_name) =
     sort_key history_key
       (filter (\<lambda>r. j_exercise_name r = Some exercise_name) (j_rows (joined_sets sessions exercises sets)))"
  by (simp add: exercise_history_def loc_sort_values_def Let_def)

lemma history_key_eq_iff:
  "history_key r = history_key r' \<longleftrightarrow>
     j_session_date r = j_session_date r' \<and> j_set_number r = j_set_number r'"
  by (auto simp: history_key_def split: option.splits)

lemma lex_key_le:
  "((a::nat, x::'a::linorder), i::int) \<le> ((b, y), j) \<longleftrightarrow> a < b \<or> (a = b \<and> (x < y \<or> (x = y \<and> i \<le> j)))"
  by (auto simp: less_eq_prod_def less_prod_def)

lemma history_key_le_dates:
  "history_key r \<le> history_key r' \<Longrightarrow> j_session_date r = Some d \<Longrightarrow> j_session_date r' = Some d'
     \<Longrightarrow> d < d' \<or> (d = d' \<and> j_set_number r \<le> j_set_number r')"
  by (auto simp: history_key_def lex_key_le)

lemma history_key_le_absent:
  "history_key r \<le> history_key r' \<Longrightarrow> j_session_date r = None \<Longrightarrow> j_session_date r' = None"
  by (cases "j_session_date r'") (simp_all add: history_key_def lex_key_le)

lemma history_key_le_undated:
  "history_key r \<le> history_key r' \<Longrightarrow> j_session_date r = None \<Longrightarrow> j_session_date r' = None
     \<Longrightarrow> j_set_number r \<le> j_set_number r'"
  by (simp add: history_key_def lex_key_le)

text \<open>
  Claim C7. \<^verbatim>\<open>exercise_history\<close> returns exactly the rows of the joined view whose
  exercise name is the given name (as a multiset: each such row once per occurrence),
  in ascending order of (session date, set number): of two rows with a date the one
  with the earlier date comes first and, on the same date, the one with the smaller set
  number; the rows without a date come after all rows with a date, in ascending order
  of set number among themselves. Rows that agree on both keys (also those that both
  lack a date and have the same set number) keep the order they have in the joined
  view.
\<close>

theorem exercise_history_sorted_stable:
  "mset (j_rows (exercise_history sessions exercises sets exercise_name))
     = mset (filter (\<lambda>r. j_exercise_name r = Some exercise_name)
               (j_rows (joined_sets sessions exercises sets)))
   \<and> sorted_wrt (\<lambda>r r'. \<forall>d d'. j_session_date r = Some d \<and> j_session_date r' = Some d'
                    \<longrightarrow> d < d' \<or> (d = d' \<and> j_set_number r \<le> j_set_number r'))
       (j_rows (exercise_history sessions exercises sets exercise_name))
   \<and> sorted_wrt (\<lambda>r r'. j_session_date r = None \<longrightarrow> j_session_date r' = None)
       (j_rows (exercise_history sessions exercises sets exercise_name))
   \<and> sorted_wrt (\<lambda>r r'. j_session_date r = None \<and> j_session_date r' = None
                    \<longrightarrow> j_set_number r \<le> j_set_number r')
       (j_rows (exercise_history sessions exercises sets exercise_name))
   \<and> filter (\<lambda>r. j_session_date r = date \<and> j_set_number r = set_number)
       (j_rows (exercise_history sessions exercises sets exercise_name))
     = filter (\<lambda>r. j_session_date r = date \<and> j_set_number r = set_number)
         (filter (\<lambda>r. j_exercise_name r = Some exercise_name)
            (j_rows (joined_sets sessions exercises sets)))"
proof -
  define J where "J = filter (\<lambda>r. j_exercise_name r = Some exercise_name)
                        (j_rows (joined_sets sessions exercises sets))"
  define H where "H = j_rows (exercise_history sessions exercises sets exercise_name)"
  have H: "H = sort_key history_key J"
    by (simp add: H_def J_def exercise_history_rows)
  have "sorted (map history_key H)"
    by (simp add: H)
  then have s: "sorted_wrt (\<lambda>r r'. history_key r \<le> history_key r') H"
    by (simp add: sorted_map)
  have 1: "mset H = mset J"
    by (simp add: H)
  have 2: "sorted_wrt (\<lambda>r r'. \<forall>d d'. j_session_date r = Some d \<and> j_session_date r' = Some d'
                    \<longrightarrow> d < d' \<or> (d = d' \<and> j_set_number r \<le> j_set_number r')) H"
    using s by (rule sorted_wrt_mono_rel [rotated]) (blast dest: history_key_le_dates)
  have 3: "sorted_wrt (\<lambda>r r'. j_session_date r = None \<longrightarrow> j_session_date r' = None) H"
    using s by (rule sorted_wrt_mono_rel [rotated]) (blast dest: history_key_le_absent)
  have 4: "sorted_wrt (\<lambda>r r'. j_session_date r = None \<and> j_session_date r' = None
                    \<longrightarrow> j_set_number r \<le> j_set_number r') H"
    using s by (rule sorted_wrt_mono_rel [rotated]) (blast dest: history_key_le_undated)
  define k where "k = ((case date of None \<Rightarrow> (1::nat, (0::int, 0::nat, 0::nat, 0::nat)) | Some d \<Rightarrow> (0, d)), set_number)"
  have k: "(j_session_date r = date \<and> j_set_number r = set_number) \<longleftrightarrow> history_key r = k" for r
    by (auto simp: history_key_def k_def split: option.splits)
  have 5: "filter (\<lambda>r. j_session_date r = date \<and> j_set_number r = set_number) H
         = filter (\<lambda>r. j_session_date r = date \<and> j_set_number r = set_number) J"
    unfolding k H by (rule sort_key_stable)
  show ?thesis
    using 1 2 3 4 5 unfolding H_def J_def by blast
qed

lemma tie_joined:
  "map (\<lambda>r. (j_set_id r, j_session_date r, j_set_number r))
       (filter (\<lambda>r. j_exercise_name r = Some ''Bench'')
          (j_rows (joined_sets new_year_sessions (new_year_exercises @ [orphan_exercise]) tie_sets)))
     = [(1, None, 2), (5, Some (2025, 1, 2, 0), 1), (7, None, 1), (4, Some (2024, 12, 30, 0), 2),
        (2, Some (2025, 1, 2, 0), 1), (6, Some (2024, 12, 30, 0), 1), (3, None, 1)]"
  by code_simp

lemma tie_history:
  "map (\<lambda>r. (j_set_id r, j_session_date r, j_set_number r))
       (j_rows (exercise_history new_year_sessions (new_year_exercises @ [orphan_exercise]) tie_sets
          ''Bench''))
     = [(6, Some (2024, 12, 30, 0), 1), (4, Some (2024, 12, 30, 0), 2),
        (5, Some (2025, 1, 2, 0), 1), (2, Some (2025, 1, 2, 0), 1),
        (7, None, 1), (3, None, 1), (1, None, 2)]"
  by code_simp

lemma filter_by_columns:
  "map f (filter (\<lambda>r. P (f r)) xs) = filter P (map f xs)"
  by (induction xs) simp_all

theorem exercise_history_sorted_stable_witness:
  "map (\<lambda>r. (j_set_id r, j_session_date r, j_set_number r))
       (j_rows (exercise_history new_year_sessions (new_year_exercises @ [orphan_exercise]) tie_sets
          ''Bench''))
     = [(6, Some (2024, 12, 30, 0), 1), (4, Some (2024, 12, 30, 0), 2),
        (5, Some (2025, 1, 2, 0), 1), (2, Some (2025, 1, 2, 0), 1),
        (7, None, 1), (3, None, 1), (1, None, 2)]
   \<and> map j_set_id (filter (\<lambda>r. j_exercise_name r = Some ''Bench'')
          (j_rows (joined_sets new_year_sessions (new_year_exercises @ [orphan_exercise]) tie_sets)))
     = [1, 5, 7, 4, 2, 6, 3]
   \<and> map j_set_id (filter (\<lambda>r. j_session_date r = Some (2025, 1, 2, 0) \<and> j_set_number r = 1)
       (j_rows (exercise_history new_year_sessions (new_year_exercises @ [orphan_exercise]) tie_sets
          ''Bench''))) = [5, 2]"
proof -
  note stable = exercise_history_sorted_stable [of new_year_sessions
      "new_year_exercises @ [orphan_exercise]" tie_sets "''Bench''" "Some (2025, 1, 2, 0)" 1,
      THEN conjunct2, THEN conjunct2, THEN conjunct2, THEN conjunct2]
  have "map (\<lambda>r. (j_set_id r, j_session_date r, j_set_number r))
          (filter (\<lambda>r. j_session_date r = Some (2025, 1, 2, 0) \<and> j_set_number r = 1)
             (filter (\<lambda>r. j_exercise_name r = Some ''Bench'')
                (j_rows (joined_sets new_year_sessions (new_year_exercises @ [orphan_exercise]) tie_sets))))
        = [(5, Some (2025, 1, 2, 0), 1), (2, Some (2025, 1, 2, 0), 1)]"
    using filter_by_columns [of "\<lambda>r. (j_set_id r, j_session_date r, j_set_number r)"
        "\<lambda>c. fst (snd c) = Some (2025, 1, 2, 0) \<and> snd (snd c) = 1"
        "filter (\<lambda>r. j_exercise_name r = Some ''Bench'')
           (j_rows (joined_sets new_year_sessions (new_year_exercises @ [orphan_exercise]) tie_sets))"]
    by (simp add: tie_joined)
  then have "map (\<lambda>r. (j_set_id r, j_session_date r, j_set_number r))
          (filter (\<lambda>r. j_session_date r = Some (2025, 1, 2, 0) \<and> j_set_number r = 1)
             (j_rows (exercise_history new_year_sessions (new_year_exercises @ [orphan_exercise])
                tie_sets ''Bench'')))
        = [(5, Some (2025, 1, 2, 0), 1), (2, Some (2025, 1, 2, 0), 1)]"
    by (simp only: stable)
  then have "map fst (map (\<lambda>r. (j_set_id r, j_session_date r, j_set_number r))
          (filter (\<lambda>r. j_session_date r = Some (2025, 1, 2, 0) \<and> j_set_number r = 1)
             (j_rows (exercise_history new_year_sessions (new_year_exercises @ [orphan_exercise])
                tie_sets ''Bench''))))
        = [5, 2]"
    by simp
  then have tie: "map j_set_id
          (filter (\<lambda>r. j_session_date r = Some (2025, 1, 2, 0) \<and> j_set_number r = 1)
             (j_rows (exercise_history new_year_sessions (new_year_exercises @ [orphan_exercise])
                tie_sets ''Bench'')))
        = [5, 2]"
    by (simp add: comp_def)
  have "map fst (map (\<lambda>r. (j_set_id r, j_session_date r, j_set_number r))
          (filter (\<lambda>r. j_exercise_name r = Some ''Bench'')
             (j_rows (joined_sets new_year_sessions (new_year_exercises @ [orphan_exercise]) tie_sets))))
        = [1, 5, 7, 4, 2, 6, 3]"
    by (simp only: tie_joined) simp
  then have joined: "map j_set_id (filter (\<lambda>r. j_exercise_name r = Some ''Bench'')
          (j_rows (joined_sets new_year_sessions (new_year_exercises @ [orphan_exercise]) tie_sets)))
        = [1, 5, 7, 4, 2, 6, 3]"
    by (simp add: comp_def)
  show ?thesis
    using tie_history tie joined by blast
qed


section \<open>Floating-point numbers: order and evaluation\<close>

lemma float64_le_simps [simp]:
  "Finite x \<le> Finite y \<longleftrightarrow> x \<le> y"
  "NInf \<le> a"
  "a \<le> PInf"
  "\<not> PInf \<le> Finite x"
  "\<not> Finite x \<le> NInf"
  "\<not> PInf \<le> NInf"
  by (simp_all add: less_eq_float64_def split: float64.splits)

lemma Max_Finite:
  assumes "finite S" and "S \<noteq> {}"
  shows "Max (Finite ` S) = Finite (Max S)"
proof -
  have "mono Finite"
    by (rule monoI) simp
  then show ?thesis
    using assms by (simp add: mono_Max_commute)
qed

lemma bit_length_0: "bit_length 0 = 0"
  by (simp add: bit_length.simps)

lemma bit_length_1: "bit_length 1 = 1" "bit_length (Suc 0) = 1"
  by (simp_all add: bit_length.simps [of 1] bit_length.simps [of "Suc 0"] bit_length.simps [of 0])

lemma bit_length_Bit0: "bit_length (numeral (Num.Bit0 n)) = Suc (bit_length (numeral n))"
proof -
  have "numeral (Num.Bit0 n) div (2::nat) = numeral n"
    by simp
  then show ?thesis
    by (subst bit_length.simps) simp
qed

lemma bit_length_Bit1: "bit_length (numeral (Num.Bit1 n)) = Suc (bit_length (numeral n))"
proof -
  have "numeral (Num.Bit1 n) div (2::nat) = numeral n"
    by simp
  then show ?thesis
    by (subst bit_length.simps) simp
qed

lemmas round64_eval =
  round64_def floor_log2_def pow2_def round_half_even_def Let_def
  bit_length_0 bit_length_1 bit_length_Bit0 bit_length_Bit1

lemmas float_eval = f64_of_int_def f_sub_def kahan_sum_def kahan_add_def round64_eval


section \<open>Progress metrics\<close>

lemma set_map_filter: "set (List.map_filter key df) = {k. \<exists>r \<in> set df. key r = Some k}"
  by (auto simp: List.map_filter_def image_iff) force

lemma group_keys_eq:
  "group_keys key df = sorted_list_of_set {k. \<exists>r \<in> set df. key r = Some k}"
  by (simp add: group_keys_def sorted_list_of_set_sort_remdups [symmetric] set_map_filter)

lemma sorted_group_keys: "sorted (group_keys key df)"
  by (simp add: group_keys_def)

lemma group_rows_nonempty: "k \<in> set (group_keys key df) \<Longrightarrow> group_rows key df k \<noteq> []"
  by (auto simp: group_keys_def set_map_filter group_rows_def filter_empty_conv)

lemma map_filter_Some: "List.map_filter (\<lambda>v. v) (map (\<lambda>r. Some (f r)) g) = map f g"
  by (induction g) (simp_all add: List.map_filter_def)

lemma map_filter_map: "List.map_filter (\<lambda>v. v) (map f g) = List.map_filter f g"
  by (induction g) (simp_all add: List.map_filter_def)

lemma series_max_Some:
  "g \<noteq> [] \<Longrightarrow> series_max (map (\<lambda>r. Some (f r)) g) = Some (Max (f ` set g))"
proof (cases g)
  case Nil
  assume "g \<noteq> []"
  with Nil show ?thesis by simp
next
  case (Cons r rs)
  have "fold max (map f rs) (f r) = Max (set (f r # map f rs))"
    by (rule Max.set_eq_fold [symmetric])
  then show ?thesis
    by (simp add: series_max_def map_filter_Some Cons)
qed

lemma series_max_eq:
  "series_max (map f g) =
     (if \<forall>r \<in> set g. f r = None then None else Some (Max {x. \<exists>r \<in> set g. f r = Some x}))"
proof (cases "List.map_filter f g")
  case Nil
  then have "{x. \<exists>r \<in> set g. f r = Some x} = {}"
    using set_map_filter [of f g] by simp
  then have "\<forall>r \<in> set g. f r = None"
    by (metis (mono_tags, lifting) empty_iff mem_Collect_eq not_None_eq)
  then show ?thesis
    by (simp add: series_max_def map_filter_map Nil)
next
  case (Cons x xs)
  have "fold max xs x = Max (set (x # xs))"
    by (rule Max.set_eq_fold [symmetric])
  also have "set (x # xs) = {x. \<exists>r \<in> set g. f r = Some x}"
    using set_map_filter [of f g] by (simp add: Cons)
  finally have m: "fold max xs x = Max {x. \<exists>r \<in> set g. f r = Some x}" .
  have "x \<in> {x. \<exists>r \<in> set g. f r = Some x}"
    using set_map_filter [of f g] by (simp add: Cons) blast
  then have "\<not> (\<forall>r \<in> set g. f r = None)"
    by auto
  then show ?thesis
    by (simp add: series_max_def map_filter_map Cons m)
qed

lemma sort_by_date_groups:
  "sort_by_date (map (\<lambda>d. (d, v d)) (group_keys key df)) = map (\<lambda>d. (d, v d)) (group_keys key df)"
  unfolding sort_by_date_def
  by (rule sort_key_id_if_sorted) (simp add: comp_def sorted_group_keys)

lemma groupby_date_max_eq:
  "groupby_date_max df (\<lambda>r. Some (f r)) =
     map (\<lambda>d. (d, Some (Max (f ` set (filter (\<lambda>r. j_session_date r = Some d) (j_rows df))))))
       (group_keys j_session_date (j_rows df))"
  unfolding groupby_date_max_def groupby_def
  by (simp add: comp_def series_max_Some group_rows_nonempty) (simp add: group_rows_def)

lemma groupby_date_max_weight:
  "groupby_date_max df (\<lambda>r. Some (Finite (j_weight r))) =
     map (\<lambda>d. (d, Some (Finite (Max (j_weight ` set (filter (\<lambda>r. j_session_date r = Some d) (j_rows df)))))))
       (group_keys j_session_date (j_rows df))"
proof -
  have "Max ((\<lambda>r. Finite (j_weight r)) ` set (filter (\<lambda>r. j_session_date r = Some d) (j_rows df)))
          = Finite (Max (j_weight ` set (filter (\<lambda>r. j_session_date r = Some d) (j_rows df))))"
    if "d \<in> set (group_keys j_session_date (j_rows df))" for d
  proof -
    have ne: "set (filter (\<lambda>r. j_session_date r = Some d) (j_rows df)) \<noteq> {}"
      using group_rows_nonempty [OF that] by (auto simp: group_rows_def filter_empty_conv)
    have "(\<lambda>r. Finite (j_weight r)) ` set (filter (\<lambda>r. j_session_date r = Some d) (j_rows df))
            = Finite ` (j_weight ` set (filter (\<lambda>r. j_session_date r = Some d) (j_rows df)))"
      by (simp add: image_image)
    then show ?thesis
      using ne by (simp add: Max_Finite)
  qed
  then show ?thesis
    unfolding groupby_date_max_eq by simp
qed

lemma group_keys_map:
  "(\<And>r. key (u r) = key r) \<Longrightarrow> group_keys key (map u df) = group_keys key df"
  by (simp add: group_keys_eq)

lemma group_rows_map:
  "(\<And>r. key (u r) = key r) \<Longrightarrow> group_rows key (map u df) k = map u (group_rows key df k)"
  by (simp add: group_rows_def filter_map comp_def)

lemma groupby_date_sum_volume:
  "groupby_date_sum (set_volume df) j_volume =
     map (\<lambda>d. (d, kahan_sum (filter (\<lambda>v. v \<noteq> None)
                    (map (\<lambda>r. f_mul (Some (Finite (j_weight r))) (f64_of_int (j_reps r)))
                       (filter (\<lambda>r. j_session_date r = Some d) (j_rows df))))))
       (group_keys j_session_date (j_rows df))"
proof -
  define u where "u = (\<lambda>r::joined_row. r\<lparr>j_volume := f_mul (Some (Finite (j_weight r))) (f64_of_int (j_reps r))\<rparr>)"
  have rows: "j_rows (set_volume df) = map u (j_rows df)"
    by (simp add: set_volume_def u_def)
  have key: "j_session_date (u r) = j_session_date r" for r
    by (simp add: u_def)
  have vol: "j_volume (u r) = f_mul (Some (Finite (j_weight r))) (f64_of_int (j_reps r))" for r
    by (simp add: u_def)
  show ?thesis
    unfolding groupby_date_sum_def groupby_def rows group_keys_map [of j_session_date u, OF key]
      group_rows_map [of j_session_date u, OF key]
    by (simp add: comp_def vol series_sum_def) (simp add: group_rows_def)
qed

lemma groupby_date_max_e1rm:
  "groupby_date_max (set_e1rm df) j_e1rm =
     map (\<lambda>d. (d, series_max
                    (map (\<lambda>r. f_mul (Some (Finite (j_weight r)))
                                 (f_add (Some (Finite 1)) (f_div (f64_of_int (j_reps r)) 30)))
                       (filter (\<lambda>r. j_session_date r = Some d) (j_rows df)))))
       (group_keys j_session_date (j_rows df))"
proof -
  define u where "u = (\<lambda>r::joined_row. r\<lparr>j_e1rm := f_mul (Some (Finite (j_weight r)))
                                 (f_add (Some (Finite 1)) (f_div (f64_of_int (j_reps r)) 30))\<rparr>)"
  have rows: "j_rows (set_e1rm df) = map u (j_rows df)"
    by (simp add: set_e1rm_def u_def)
  have key: "j_session_date (u r) = j_session_date r" for r
    by (simp add: u_def)
  have col: "j_e1rm (u r) = f_mul (Some (Finite (j_weight r)))
                                 (f_add (Some (Finite 1)) (f_div (f64_of_int (j_reps r)) 30))" for r
    by (simp add: u_def)
  show ?thesis
    unfolding groupby_date_max_def groupby_def rows group_keys_map [of j_session_date u, OF key]
      group_rows_map [of j_session_date u, OF key]
    by (simp add: comp_def col) (simp add: group_rows_def)
qed


lemmas analytics_eval =
  exercise_progress_def exercise_history_def loc_sort_values_def
  joined_sets_def merge_exercises_def merge_sessions_def rename_columns_def joined_row_of_def
  history_key_def lex_key_le groupby_date_max_def groupby_date_sum_def groupby_def
  group_keys_def group_rows_def series_max_def series_sum_def series_count_def sort_by_date_def
  set_volume_def set_e1rm_def

lemma bench_tables:
  "log_all [bench_call 1 w1 r1, bench_call 2 w2 r2] =
     (\<lparr>s_rows = [\<lparr>s_session_id = 1, s_date = (2024, 1, 2, 0), s_group = ''Push'',
                  s_notes = Some [], s_week = None, s_year = None\<rparr>],
       s_date_dtype = Datetime64\<rparr>,
      [\<lparr>e_exercise_id = 1, e_session_id = 1, e_exercise_name = ''Bench'',
        e_muscle = Some ''chest'', e_group = Some ''Push''\<rparr>],
      [\<lparr>t_set_id = 1, t_exercise_id = 1, t_set_number = 1, t_weight = w1, t_reps = r1,
        t_rir = None, t_comments = Some []\<rparr>,
       \<lparr>t_set_id = 2, t_exercise_id = 1, t_set_number = 2, t_weight = w2, t_reps = r2,
        t_rir = None, t_comments = Some []\<rparr>])"
  by (simp add: quick_log_eval)

lemma bench_history:
  "exercise_history (fst (log_all [bench_call 1 w1 r1, bench_call 2 w2 r2]))
       (fst (snd (log_all [bench_call 1 w1 r1, bench_call 2 w2 r2])))
       (snd (snd (log_all [bench_call 1 w1 r1, bench_call 2 w2 r2]))) ''Bench'' =
     \<lparr>j_rows =
        [\<lparr>j_set_id = 1, j_exercise_id = 1, j_set_number = 1, j_weight = w1, j_reps = r1,
          j_rir = None, j_comments = Some [], j_session_id = Some 1,
          j_exercise_name = Some ''Bench'', j_muscle = Some ''chest'',
          j_session_group = Some ''Push'', j_session_date = Some (2024, 1, 2, 0),
          j_group_sess = Some ''Push'', j_notes = Some [], j_week = None, j_year = None,
          j_volume = None, j_e1rm = None\<rparr>,
         \<lparr>j_set_id = 2, j_exercise_id = 1, j_set_number = 2, j_weight = w2, j_reps = r2,
          j_rir = None, j_comments = Some [], j_session_id = Some 1,
          j_exercise_name = Some ''Bench'', j_muscle = Some ''chest'',
          j_session_group = Some ''Push'', j_session_date = Some (2024, 1, 2, 0),
          j_group_sess = Some ''Push'', j_notes = Some [], j_week = None, j_year = None,
          j_volume = None, j_e1rm = None\<rparr>],
      j_date_dtype = Datetime64\<rparr>"
  unfolding bench_tables
  by (simp add: exercise_history_def loc_sort_values_def joined_sets_def merge_exercises_def
      merge_sessions_def rename_columns_def joined_row_of_def history_key_def lex_key_le)

lemmas progress_eval =
  exercise_progress_def groupby_date_max_def groupby_date_sum_def groupby_def
  group_keys_def group_rows_def series_max_def series_sum_def sort_by_date_def
  set_volume_def set_e1rm_def

text \<open>The float64 arithmetic of the examples.\<close>

lemma bench_volume_values:
  "f_mul (Some (Finite 100)) (f64_of_int 5) = Some (Finite 500)"
  "f_mul (Some (Finite 90)) (f64_of_int 8) = Some (Finite 720)"
  by (simp_all add: float_eval)

lemma bench_volume_sum: "kahan_sum [Some (Finite 500), Some (Finite 720)] = Some (Finite 1220)"
  by (simp add: float_eval)

lemma bench_e1rm_values:
  "f_mul (Some (Finite 100)) (f_add (Some (Finite 1)) (f_div (f64_of_int 5) 30))
     = Some (Finite (8209686820727467 / 70368744177664))"
  "f_mul (Some (Finite 90)) (f_add (Some (Finite 1)) (f_div (f64_of_int 8) 30))
     = Some (Finite 114)"
  by (simp_all add: float_eval)

lemma tenth_volume_values:
  "f_mul (Some (Finite tenth)) (f64_of_int 3) = Some (Finite (1351079888211149 / 4503599627370496))"
  "f_mul (Some (Finite fifth)) (f64_of_int 3) = Some (Finite (1351079888211149 / 2251799813685248))"
  by (simp_all add: float_eval tenth_def fifth_def)

lemma tenth_volume_sum:
  "kahan_sum [Some (Finite (1351079888211149 / 4503599627370496)),
              Some (Finite (1351079888211149 / 2251799813685248))]
     = Some (Finite (4053239664633447 / 4503599627370496))"
  by (simp add: float_eval)

lemma bench_top: "case log_all [bench_call 1 100 5, bench_call 2 90 8] of (one_session, one_exercise, two_sets) \<Rightarrow>
         exercise_progress one_session one_exercise two_sets ''Bench'' ''top_set_weight''
           = Inr (Progress [((2024, 1, 2, 0), Some (Finite 100))])"
  by (simp add: split_def exercise_progress_def [of "fst _"] bench_history progress_eval)

lemma bench_vol: "case log_all [bench_call 1 100 5, bench_call 2 90 8] of (one_session, one_exercise, two_sets) \<Rightarrow>
         exercise_progress one_session one_exercise two_sets ''Bench'' ''total_volume''
           = Inr (Progress [((2024, 1, 2, 0), Some (Finite 1220))])"
  by (simp add: split_def exercise_progress_def [of "fst _"] bench_history progress_eval
      bench_volume_values bench_volume_sum)

lemma bench_e1rm: "case log_all [bench_call 1 100 5, bench_call 2 90 8] of (one_session, one_exercise, two_sets) \<Rightarrow>
         exercise_progress one_session one_exercise two_sets ''Bench'' ''e1rm''
           = Inr (Progress [((2024, 1, 2, 0), Some (Finite (8209686820727467 / 70368744177664)))])"
  by (simp add: split_def exercise_progress_def [of "fst _"] bench_history progress_eval
      bench_e1rm_values)

lemma tenth_vol:
  "exercise_progress (fst (log_all [bench_call 1 tenth 3, bench_call 2 fifth 3]))
       (fst (snd (log_all [bench_call 1 tenth 3, bench_call 2 fifth 3])))
       (snd (snd (log_all [bench_call 1 tenth 3, bench_call 2 fifth 3]))) ''Bench'' ''total_volume''
     = Inr (Progress [((2024, 1, 2, 0), Some (Finite (4053239664633447 / 4503599627370496)))])"
  by (simp add: exercise_progress_def [of "fst _"] bench_history progress_eval
      tenth_volume_values tenth_volume_sum)

text \<open>Where nothing is rounded the compensated sum is the sum.\<close>

lemma round64_0: "round64 0 = Finite 0"
  by (simp add: round64_def)

lemma kahan_add_exact:
  assumes "is_float64 v" and "is_float64 (s + v)"
  shows "kahan_add (Some (Finite s), Some (Finite 0)) (Some (Finite v))
           = (Some (Finite (s + v)), Some (Finite 0))"
  using assms by (simp add: kahan_add_def f_sub_def is_float64_def round64_0)

lemma kahan_foldl_exact:
  assumes "\<forall>v \<in> set vs. is_float64 v"
    and "\<forall>n \<le> length vs. is_float64 (s + sum_list (take n vs))"
  shows "foldl kahan_add (Some (Finite s), Some (Finite 0)) (map (\<lambda>v. Some (Finite v)) vs)
           = (Some (Finite (s + sum_list vs)), Some (Finite 0))"
  using assms
proof (induction vs arbitrary: s)
  case Nil
  then show ?case by simp
next
  case (Cons v vs)
  have v: "is_float64 v"
    using Cons.prems(1) by simp
  have sv: "is_float64 (s + v)"
    using Cons.prems(2) [rule_format, of 1] by simp
  have rest: "\<forall>n \<le> length vs. is_float64 (s + v + sum_list (take n vs))"
  proof (intro allI impI)
    fix n
    assume "n \<le> length vs"
    then show "is_float64 (s + v + sum_list (take n vs))"
      using Cons.prems(2) [rule_format, of "Suc n"] by (simp add: add.assoc)
  qed
  have "foldl kahan_add (Some (Finite (s + v)), Some (Finite 0)) (map (\<lambda>v. Some (Finite v)) vs)
          = (Some (Finite (s + v + sum_list vs)), Some (Finite 0))"
    using Cons.IH [of "s + v"] Cons.prems(1) rest by simp
  then show ?case
    by (simp add: kahan_add_exact [OF v sv] add.assoc)
qed

lemma kahan_sum_unrounded:
  assumes "unrounded rows"
  shows "kahan_sum (filter (\<lambda>v. v \<noteq> None)
            (map (\<lambda>r. f_mul (Some (Finite (j_weight r))) (f64_of_int (j_reps r))) rows))
           = Some (Finite (\<Sum>r\<leftarrow>rows. j_weight r * real_of_int (j_reps r)))"
proof -
  define p where "p = (\<lambda>r::joined_row. j_weight r * real_of_int (j_reps r))"
  have prod: "f_mul (Some (Finite (j_weight r))) (f64_of_int (j_reps r)) = Some (Finite (p r))"
    if "r \<in> set rows" for r
    using assms that by (simp add: unrounded_def f64_of_int_def is_float64_def p_def)
  have col: "map (\<lambda>r. f_mul (Some (Finite (j_weight r))) (f64_of_int (j_reps r))) rows
               = map (\<lambda>v. Some (Finite v)) (map p rows)"
    using prod by (simp add: comp_def)
  have vals: "\<forall>v \<in> set (map p rows). is_float64 v"
    using assms by (simp add: unrounded_def p_def)
  have sums: "\<forall>n \<le> length (map p rows). is_float64 (0 + sum_list (take n (map p rows)))"
    using assms by (simp add: unrounded_def p_def take_map)
  have "foldl kahan_add (Some (Finite 0), Some (Finite 0)) (map (\<lambda>v. Some (Finite v)) (map p rows))
          = (Some (Finite (0 + sum_list (map p rows))), Some (Finite 0))"
    by (rule kahan_foldl_exact [OF vals sums])
  then show ?thesis
    unfolding col by (simp add: kahan_sum_def p_def)
qed

lemma all_le_Suc: "(\<forall>n \<le> Suc k. P n) \<longleftrightarrow> (\<forall>n \<le> k. P n) \<and> P (Suc k)"
  by (auto simp: le_Suc_eq)

lemma huge_values:
  "round64 1 = Finite 1"
  "round64 huge = Finite huge"
  "round64 (2 * huge) = PInf"
  by (simp_all add: round64_eval huge_def)

lemma overflow_values:
  "f_mul (Some (Finite huge)) (f64_of_int 1) = Some (Finite huge)"
  "kahan_sum [Some (Finite huge), Some (Finite huge)] = Some PInf"
  by (simp_all add: f64_of_int_def kahan_sum_def kahan_add_def f_sub_def Let_def huge_values round64_0)

lemma overflow_vol:
  "case log_all [bench_call 1 huge 1, bench_call 2 huge 1] of
       (one_session, one_exercise, two_sets) \<Rightarrow>
         exercise_progress one_session one_exercise two_sets ''Bench'' ''total_volume''
           = Inr (Progress [((2024, 1, 2, 0), Some PInf)])"
  by (simp add: split_def exercise_progress_def [of "fst _"] bench_history progress_eval
      overflow_values)


text \<open>
  Claim C2 (as amended). When the history of the exercise has a row, \<^verbatim>\<open>exercise_progress\<close>
  returns one row per session date of the history, in ascending date order (a history
  row without a date is in no group), whose value is computed in float64 arithmetic,
  every operation rounded to the nearest float64: for \<^verbatim>\<open>top_set_weight\<close> the maximum
  weight of the date's sets (no rounding takes place); for \<^verbatim>\<open>total_volume\<close> the
  compensated float64 sum, in history order, of the float64 products weight * reps of
  the date's sets (a product that is NaN is skipped); for \<^verbatim>\<open>e1rm\<close> the maximum over
  the date's sets of the float64 value of weight * (1 + reps / 30.0), NaN values
  skipped and NaN when there is no other. Where no conversion, product or partial sum
  of a date's sets is rounded, \<^verbatim>\<open>total_volume\<close> is the sum of weight * reps over the
  date's sets. For one session with the sets (100, 5) and (90, 8), logged through
  \<^verbatim>\<open>quick_log_set\<close>, the values are 100, 1220 and the float64 number
  116.66666666666667 = 8209686820727467 / 2 ^ 46, which is the float64 value of
  100 * (1 + 5 / 30.0) and lies within 10 ^ -14 of the real number 100 * (1 + 5 / 30).
  A result beyond the float64 range is an infinity: two sets of one repetition at the
  weight 2 ^ 1023 (a float64 number) have the \<^verbatim>\<open>total_volume\<close> +infinity.
\<close>

theorem exercise_progress_metrics:
  "(let H = j_rows (exercise_history sessions exercises sets exercise_name);
        dates = sorted_list_of_set {d. \<exists>r \<in> set H. j_session_date r = Some d};
        on = (\<lambda>d. filter (\<lambda>r. j_session_date r = Some d) H);
        volume = (\<lambda>r. f_mul (Some (Finite (j_weight r))) (f64_of_int (j_reps r)));
        e1rm = (\<lambda>r. f_mul (Some (Finite (j_weight r)))
                        (f_add (Some (Finite 1)) (f_div (f64_of_int (j_reps r)) 30)))
    in H \<noteq> [] \<longrightarrow>
       exercise_progress sessions exercises sets exercise_name ''top_set_weight''
         = Inr (Progress (map (\<lambda>d. (d, Some (Finite (Max (j_weight ` set (on d)))))) dates))
       \<and> exercise_progress sessions exercises sets exercise_name ''total_volume''
         = Inr (Progress (map (\<lambda>d. (d, kahan_sum (filter (\<lambda>v. v \<noteq> None) (map volume (on d))))) dates))
       \<and> exercise_progress sessions exercises sets exercise_name ''e1rm''
         = Inr (Progress (map (\<lambda>d. (d, if \<forall>r \<in> set (on d). e1rm r = None then None
                                         else Some (Max {x. \<exists>r \<in> set (on d). e1rm r = Some x}))) dates))
       \<and> (\<forall>d \<in> set dates. unrounded (on d) \<longrightarrow>
             kahan_sum (filter (\<lambda>v. v \<noteq> None) (map volume (on d)))
               = Some (Finite (\<Sum>r\<leftarrow>on d. j_weight r * real_of_int (j_reps r)))))
   \<and> (case log_all [bench_call 1 100 5, bench_call 2 90 8] of (one_session, one_exercise, two_sets) \<Rightarrow>
         exercise_progress one_session one_exercise two_sets ''Bench'' ''top_set_weight''
           = Inr (Progress [((2024, 1, 2, 0), Some (Finite 100))])
         \<and> exercise_progress one_session one_exercise two_sets ''Bench'' ''total_volume''
           = Inr (Progress [((2024, 1, 2, 0), Some (Finite 1220))])
         \<and> exercise_progress one_session one_exercise two_sets ''Bench'' ''e1rm''
           = Inr (Progress [((2024, 1, 2, 0), Some (Finite (8209686820727467 / 70368744177664)))]))
   \<and> f_mul (Some (Finite 100)) (f_add (Some (Finite 1)) (f_div (f64_of_int 5) 30))
       = Some (Finite (8209686820727467 / 70368744177664))
   \<and> \<bar>8209686820727467 / 70368744177664 - 100 * (1 + 5 / 30)\<bar> < (1 / 10 ^ 14 :: real)
   \<and> (case log_all [bench_call 1 huge 1, bench_call 2 huge 1] of
         (one_session, one_exercise, two_sets) \<Rightarrow>
           exercise_progress one_session one_exercise two_sets ''Bench'' ''total_volume''
             = Inr (Progress [((2024, 1, 2, 0), Some PInf)]))"
proof (intro conjI)
  define df where "df = exercise_history sessions exercises sets exercise_name"
  have 1: "sort_by_date (groupby_date_max df (\<lambda>r. Some (Finite (j_weight r)))) =
      map (\<lambda>d. (d, Some (Finite (Max (j_weight ` set (filter (\<lambda>r. j_session_date r = Some d) (j_rows df)))))))
        (sorted_list_of_set {d. \<exists>r \<in> set (j_rows df). j_session_date r = Some d})"
    unfolding groupby_date_max_weight sort_by_date_groups by (simp add: group_keys_eq)
  have 2: "sort_by_date (groupby_date_sum (set_volume df) j_volume) =
      map (\<lambda>d. (d, kahan_sum (filter (\<lambda>v. v \<noteq> None)
                    (map (\<lambda>r. f_mul (Some (Finite (j_weight r))) (f64_of_int (j_reps r)))
                       (filter (\<lambda>r. j_session_date r = Some d) (j_rows df))))))
        (sorted_list_of_set {d. \<exists>r \<in> set (j_rows df). j_session_date r = Some d})"
    unfolding groupby_date_sum_volume sort_by_date_groups by (simp add: group_keys_eq)
  have 3: "sort_by_date (groupby_date_max (set_e1rm df) j_e1rm) =
      map (\<lambda>d. (d, series_max
                    (map (\<lambda>r. f_mul (Some (Finite (j_weight r)))
                                 (f_add (Some (Finite 1)) (f_div (f64_of_int (j_reps r)) 30)))
                       (filter (\<lambda>r. j_session_date r = Some d) (j_rows df)))))
        (sorted_list_of_set {d. \<exists>r \<in> set (j_rows df). j_session_date r = Some d})"
    unfolding groupby_date_max_e1rm sort_by_date_groups by (simp add: group_keys_eq)
  show "let H = j_rows (exercise_history sessions exercises sets exercise_name);
        dates = sorted_list_of_set {d. \<exists>r \<in> set H. j_session_date r = Some d};
        on = (\<lambda>d. filter (\<lambda>r. j_session_date r = Some d) H);
        volume = (\<lambda>r. f_mul (Some (Finite (j_weight r))) (f64_of_int (j_reps r)));
        e1rm = (\<lambda>r. f_mul (Some (Finite (j_weight r)))
                        (f_add (Some (Finite 1)) (f_div (f64_of_int (j_reps r)) 30)))
    in H \<noteq> [] \<longrightarrow>
       exercise_progress sessions exercises sets exercise_name ''top_set_weight''
         = Inr (Progress (map (\<lambda>d. (d, Some (Finite (Max (j_weight ` set (on d)))))) dates))
       \<and> exercise_progress sessions exercises sets exercise_name ''total_volume''
         = Inr (Progress (map (\<lambda>d. (d, kahan_sum (filter (\<lambda>v. v \<noteq> None) (map volume (on d))))) dates))
       \<and> exercise_progress sessions exercises sets exercise_name ''e1rm''
         = Inr (Progress (map (\<lambda>d. (d, if \<forall>r \<in> set (on d). e1rm r = None then None
                                         else Some (Max {x. \<exists>r \<in> set (on d). e1rm r = Some x}))) dates))
       \<and> (\<forall>d \<in> set dates. unrounded (on d) \<longrightarrow>
             kahan_sum (filter (\<lambda>v. v \<noteq> None) (map volume (on d)))
               = Some (Finite (\<Sum>r\<leftarrow>on d. j_weight r * real_of_int (j_reps r))))"
    unfolding Let_def exercise_progress_def df_def [symmetric]
    by (simp add: 1 2 3 series_max_eq kahan_sum_unrounded del: not_None_eq)
next
  show "case log_all [bench_call 1 100 5, bench_call 2 90 8] of (one_session, one_exercise, two_sets) \<Rightarrow>
         exercise_progress one_session one_exercise two_sets ''Bench'' ''top_set_weight''
           = Inr (Progress [((2024, 1, 2, 0), Some (Finite 100))])
         \<and> exercise_progress one_session one_exercise two_sets ''Bench'' ''total_volume''
           = Inr (Progress [((2024, 1, 2, 0), Some (Finite 1220))])
         \<and> exercise_progress one_session one_exercise two_sets ''Bench'' ''e1rm''
           = Inr (Progress [((2024, 1, 2, 0), Some (Finite (8209686820727467 / 70368744177664)))])"
    using bench_top bench_vol bench_e1rm by (simp add: split_def)
next
  show "f_mul (Some (Finite 100)) (f_add (Some (Finite 1)) (f_div (f64_of_int 5) 30))
       = Some (Finite (8209686820727467 / 70368744177664))"
    by (rule bench_e1rm_values)
next
  show "\<bar>8209686820727467 / 70368744177664 - 100 * (1 + 5 / 30)\<bar> < (1 / 10 ^ 14 :: real)"
    by simp
next
  show "case log_all [bench_call 1 huge 1, bench_call 2 huge 1] of
         (one_session, one_exercise, two_sets) \<Rightarrow>
           exercise_progress one_session one_exercise two_sets ''Bench'' ''total_volume''
             = Inr (Progress [((2024, 1, 2, 0), Some PInf)])"
    by (rule overflow_vol)
qed


theorem exercise_progress_metrics_witness:
  "j_rows (exercise_history (fst (log_all [bench_call 1 100 5, bench_call 2 90 8]))
       (fst (snd (log_all [bench_call 1 100 5, bench_call 2 90 8])))
       (snd (snd (log_all [bench_call 1 100 5, bench_call 2 90 8]))) ''Bench'') \<noteq> []
   \<and> unrounded (filter (\<lambda>r. j_session_date r = Some (2024, 1, 2, 0))
       (j_rows (exercise_history (fst (log_all [bench_call 1 100 5, bench_call 2 90 8]))
          (fst (snd (log_all [bench_call 1 100 5, bench_call 2 90 8])))
          (snd (snd (log_all [bench_call 1 100 5, bench_call 2 90 8]))) ''Bench'')))
   \<and> exercise_progress (fst (log_all [bench_call 1 100 5, bench_call 2 90 8]))
       (fst (snd (log_all [bench_call 1 100 5, bench_call 2 90 8])))
       (snd (snd (log_all [bench_call 1 100 5, bench_call 2 90 8]))) ''Bench'' ''top_set_weight''
     = Inr (Progress [((2024, 1, 2, 0), Some (Finite 100))])
   \<and> exercise_progress (fst (log_all [bench_call 1 100 5, bench_call 2 90 8]))
       (fst (snd (log_all [bench_call 1 100 5, bench_call 2 90 8])))
       (snd (snd (log_all [bench_call 1 100 5, bench_call 2 90 8]))) ''Bench'' ''total_volume''
     = Inr (Progress [((2024, 1, 2, 0), Some (Finite (100 * 5 + 90 * 8)))])
   \<and> exercise_progress (fst (log_all [bench_call 1 100 5, bench_call 2 90 8]))
       (fst (snd (log_all [bench_call 1 100 5, bench_call 2 90 8])))
       (snd (snd (log_all [bench_call 1 100 5, bench_call 2 90 8]))) ''Bench'' ''e1rm''
     = Inr (Progress [((2024, 1, 2, 0), Some (Finite (8209686820727467 / 70368744177664)))])"
proof -
  note example = exercise_progress_metrics [of "fst (log_all [bench_call 1 100 5, bench_call 2 90 8])"
      "fst (snd (log_all [bench_call 1 100 5, bench_call 2 90 8]))"
      "snd (snd (log_all [bench_call 1 100 5, bench_call 2 90 8]))" "''Bench''",
      THEN conjunct2, THEN conjunct1]
  have "j_rows (exercise_history (fst (log_all [bench_call 1 100 5, bench_call 2 90 8]))
       (fst (snd (log_all [bench_call 1 100 5, bench_call 2 90 8])))
       (snd (snd (log_all [bench_call 1 100 5, bench_call 2 90 8]))) ''Bench'') \<noteq> []"
    by (simp add: bench_history)
  moreover have "unrounded (filter (\<lambda>r. j_session_date r = Some (2024, 1, 2, 0))
       (j_rows (exercise_history (fst (log_all [bench_call 1 100 5, bench_call 2 90 8]))
          (fst (snd (log_all [bench_call 1 100 5, bench_call 2 90 8])))
          (snd (snd (log_all [bench_call 1 100 5, bench_call 2 90 8]))) ''Bench'')))"
    by (simp add: bench_history unrounded_def all_le_Suc is_float64_def round64_eval)
  ultimately show ?thesis
    using example by (simp add: split_def)
qed

text \<open>
  Claim C2 as stated, with the sum, the product and the quotient of real numbers, fails:
  on the claim's own example the value of \<^verbatim>\<open>e1rm\<close> is the float64 number
  116.66666666666667, which is greater than 100 * (1 + 5 / 30); and for one session
  with three repetitions at each of the weights 0.1 and 0.2 (the float64 numbers these
  literals denote) \<^verbatim>\<open>total_volume\<close> is the float64 number 0.9000000000000001, which is
  greater than the sum of weight * reps.
\<close>

theorem exercise_progress_exact_counterexample:
  "exercise_progress (fst (log_all [bench_call 1 100 5, bench_call 2 90 8]))
       (fst (snd (log_all [bench_call 1 100 5, bench_call 2 90 8])))
       (snd (snd (log_all [bench_call 1 100 5, bench_call 2 90 8]))) ''Bench'' ''e1rm''
     = Inr (Progress [((2024, 1, 2, 0), Some (Finite (8209686820727467 / 70368744177664)))])
   \<and> (100 * (1 + 5 / 30) :: real) < 8209686820727467 / 70368744177664
   \<and> exercise_progress (fst (log_all [bench_call 1 tenth 3, bench_call 2 fifth 3]))
       (fst (snd (log_all [bench_call 1 tenth 3, bench_call 2 fifth 3])))
       (snd (snd (log_all [bench_call 1 tenth 3, bench_call 2 fifth 3]))) ''Bench'' ''total_volume''
     = Inr (Progress [((2024, 1, 2, 0), Some (Finite (4053239664633447 / 4503599627370496)))])
   \<and> tenth * real_of_int 3 + fifth * real_of_int 3 < 4053239664633447 / 4503599627370496"
  using bench_e1rm tenth_vol by (simp add: split_def tenth_def fifth_def)


section \<open>Frames as objects: what a call writes to\<close>

lemmas heap_ops =
  new_sessions_def new_exercises_def new_sets_def new_merged_def new_merged_sess_def
  new_joined_def new_progress_def new_weekly_def update_sessions_def update_joined_def

lemma add_session_obj_eq:
  "add_session_obj sessions date group_label notes h =
     ((length (h_sessions h), snd (add_session (h_sessions h ! sessions) date group_label notes)),
      h\<lparr>h_sessions := h_sessions h @ [fst (add_session (h_sessions h ! sessions) date group_label notes)]\<rparr>)"
  by (simp add: add_session_obj_def add_session_def heap_ops Let_def)

lemma add_exercise_obj_eq:
  "add_exercise_obj exercises session_id exercise_name muscle group_label h =
     ((length (h_exercises h),
       snd (add_exercise (h_exercises h ! exercises) session_id exercise_name muscle group_label)),
      h\<lparr>h_exercises := h_exercises h @
         [fst (add_exercise (h_exercises h ! exercises) session_id exercise_name muscle group_label)]\<rparr>)"
  by (simp add: add_exercise_obj_def add_exercise_def heap_ops Let_def)

lemma add_set_obj_eq:
  "add_set_obj sets exercise_id set_number weight reps rir comments h =
     (length (h_sets h),
      h\<lparr>h_sets := h_sets h @
         [add_set (h_sets h ! sets) exercise_id set_number weight reps rir comments]\<rparr>)"
  by (simp add: add_set_obj_def add_set_def heap_ops Let_def)

lemma joined_sets_obj_eq:
  "joined_sets_obj sessions exercises sets h =
     (length (h_joined h),
      h\<lparr>h_merged := h_merged h @ [merge_exercises (h_sets h ! sets) (h_exercises h ! exercises)],
        h_merged_sess := h_merged_sess h @
          [merge_sessions (merge_exercises (h_sets h ! sets) (h_exercises h ! exercises))
             (h_sessions h ! sessions)],
        h_joined := h_joined h @
          [joined_sets (h_sessions h ! sessions) (h_exercises h ! exercises) (h_sets h ! sets)]\<rparr>)"
  by (simp add: joined_sets_obj_def joined_sets_def heap_ops Let_def)

lemma exercise_history_obj_eq:
  "exercise_history_obj sessions exercises sets exercise_name h =
     (Suc (length (h_joined h)),
      h\<lparr>h_merged := h_merged h @ [merge_exercises (h_sets h ! sets) (h_exercises h ! exercises)],
        h_merged_sess := h_merged_sess h @
          [merge_sessions (merge_exercises (h_sets h ! sets) (h_exercises h ! exercises))
             (h_sessions h ! sessions)],
        h_joined := h_joined h @
          [joined_sets (h_sessions h ! sessions) (h_exercises h ! exercises) (h_sets h ! sets),
           exercise_history (h_sessions h ! sessions) (h_exercises h ! exercises) (h_sets h ! sets)
             exercise_name]\<rparr>)"
  by (simp add: exercise_history_obj_def exercise_history_def joined_sets_obj_eq heap_ops Let_def)

lemma unchanged_refl: "unchanged h h"
  by (simp add: unchanged_def)


text \<open>
  The object functions leave the old objects alone, and the frames their results refer
  to are the frames the value functions compute.
\<close>

lemma exercise_progress_obj_unchanged:
  "unchanged h (snd (exercise_progress_obj sessions exercises sets exercise_name metric h))"
  by (simp add: exercise_progress_obj_def exercise_history_obj_eq heap_ops Let_def unchanged_def)

lemma exercise_progress_obj_value:
  "map_sum (\<lambda>e. e) (progress_at (snd (exercise_progress_obj sessions exercises sets exercise_name metric h)))
       (fst (exercise_progress_obj sessions exercises sets exercise_name metric h))
     = exercise_progress (h_sessions h ! sessions) (h_exercises h ! exercises) (h_sets h ! sets)
         exercise_name metric"
  by (simp add: exercise_progress_obj_def exercise_progress_def exercise_history_obj_eq heap_ops
      Let_def progress_at_def nth_append)

lemma add_week_columns_obj_unchanged:
  "unchanged h (snd (add_week_columns_obj sessions h))"
  by (simp add: add_week_columns_obj_def heap_ops Let_def unchanged_def split: sum.splits)

lemma add_week_columns_obj_eq:
  "add_week_columns_obj sessions h =
     (case add_week_columns (h_sessions h ! sessions) of
        Inl err \<Rightarrow> (Inl err, h\<lparr>h_sessions := h_sessions h @ [h_sessions h ! sessions]\<rparr>)
      | Inr s \<Rightarrow> (Inr (length (h_sessions h)), h\<lparr>h_sessions := h_sessions h @ [s]\<rparr>))"
  by (simp add: add_week_columns_obj_def add_week_columns_def heap_ops Let_def dt_accessor_def
      set_s_week_def)

lemma weekly_volume_by_muscle_obj_unchanged:
  "unchanged h (snd (weekly_volume_by_muscle_obj sessions exercises sets h))"
  by (simp add: weekly_volume_by_muscle_obj_def add_week_columns_obj_eq joined_sets_obj_eq heap_ops
      Let_def unchanged_def split: sum.splits)

lemma weekly_volume_by_muscle_obj_value:
  "map_sum (\<lambda>e. e) (weekly_at (snd (weekly_volume_by_muscle_obj sessions exercises sets h)))
       (fst (weekly_volume_by_muscle_obj sessions exercises sets h))
     = weekly_volume_by_muscle (h_sessions h ! sessions) (h_exercises h ! exercises) (h_sets h ! sets)"
  by (simp add: weekly_volume_by_muscle_obj_def weekly_volume_by_muscle_def add_week_columns_obj_eq
      joined_sets_obj_eq heap_ops Let_def weekly_at_def nth_append split: sum.splits)

lemma quick_log_set_obj_unchanged:
  "unchanged h (snd (quick_log_set_obj sessions exercises sets date day_group exercise_name
      set_number weight reps rir muscle h))"
  by (simp add: quick_log_set_obj_def add_session_obj_eq add_exercise_obj_eq add_set_obj_eq
      Let_def unchanged_def split_def split: list.splits)

lemma quick_log_set_obj_value:
  "(case quick_log_set_obj sessions exercises sets date day_group exercise_name
            set_number weight reps rir muscle h of
      ((sessions1, exercises1, sets1), h') \<Rightarrow>
        (h_sessions h' ! sessions1, h_exercises h' ! exercises1, h_sets h' ! sets1))
     = quick_log_set (h_sessions h ! sessions) (h_exercises h ! exercises) (h_sets h ! sets)
         date day_group exercise_name set_number weight reps rir muscle"
  if "sessions < length (h_sessions h)" "exercises < length (h_exercises h)"
  using that
  by (auto simp add: quick_log_set_obj_def quick_log_set_def add_session_obj_eq add_exercise_obj_eq
      add_set_obj_eq Let_def split_def nth_append split: list.splits)

lemma unchanged_nth:
  assumes "unchanged h h'"
  shows "(\<forall>a < length (h_sessions h). h_sessions h' ! a = h_sessions h ! a)
       \<and> (\<forall>a < length (h_exercises h). h_exercises h' ! a = h_exercises h ! a)
       \<and> (\<forall>a < length (h_sets h). h_sets h' ! a = h_sets h ! a)"
proof -
  have nth: "take (length xs) ys = xs \<Longrightarrow> \<forall>a < length xs. ys ! a = xs ! a" for xs ys :: "'a list"
    by (metis nth_take)
  show ?thesis
    using assms unfolding unchanged_def by (auto dest: nth)
qed

text \<open>
  Claim C9. Whatever the heap and the references passed in, each operation leaves every
  frame object that existed before the call as it was, the caller's tables among them:
  the row-adding operations put their result into a new object (at the next free
  reference), and the analytics functions write only into objects they created
  themselves (\<^verbatim>\<open>sessions.copy()\<close>, the joined frame, the filtered and sorted history).
\<close>

theorem operations_leave_inputs_unchanged:
  "unchanged h (snd (add_session_obj sessions date group_label notes h))
   \<and> fst (fst (add_session_obj sessions date group_label notes h)) = length (h_sessions h)
   \<and> unchanged h (snd (add_exercise_obj exercises session_id exercise_name muscle exercise_group h))
   \<and> fst (fst (add_exercise_obj exercises session_id exercise_name muscle exercise_group h))
       = length (h_exercises h)
   \<and> unchanged h (snd (add_set_obj sets exercise_id set_number weight reps rir comments h))
   \<and> fst (add_set_obj sets exercise_id set_number weight reps rir comments h) = length (h_sets h)
   \<and> unchanged h (snd (quick_log_set_obj sessions exercises sets date day_group exercise_name
                          set_number weight reps rir muscle h))
   \<and> unchanged h (snd (joined_sets_obj sessions exercises sets h))
   \<and> unchanged h (snd (exercise_history_obj sessions exercises sets exercise_name h))
   \<and> unchanged h (snd (exercise_progress_obj sessions exercises sets exercise_name metric h))
   \<and> unchanged h (snd (add_week_columns_obj sessions h))
   \<and> unchanged h (snd (weekly_volume_by_muscle_obj sessions exercises sets h))
   \<and> (unchanged h h' \<longrightarrow>
        (\<forall>a < length (h_sessions h). h_sessions h' ! a = h_sessions h ! a)
        \<and> (\<forall>a < length (h_exercises h). h_exercises h' ! a = h_exercises h ! a)
        \<and> (\<forall>a < length (h_sets h). h_sets h' ! a = h_sets h ! a))"
proof -
  have "unchanged h (snd (add_session_obj sessions date group_label notes h))"
    by (simp add: add_session_obj_eq unchanged_def)
  moreover have "fst (fst (add_session_obj sessions date group_label notes h)) = length (h_sessions h)"
    by (simp add: add_session_obj_eq)
  moreover have "unchanged h (snd (add_exercise_obj exercises session_id exercise_name muscle exercise_group h))"
    by (simp add: add_exercise_obj_eq unchanged_def)
  moreover have "fst (fst (add_exercise_obj exercises session_id exercise_name muscle exercise_group h))
       = length (h_exercises h)"
    by (simp add: add_exercise_obj_eq)
  moreover have "unchanged h (snd (add_set_obj sets exercise_id set_number weight reps rir comments h))"
    by (simp add: add_set_obj_eq unchanged_def)
  moreover have "fst (add_set_obj sets exercise_id set_number weight reps rir comments h) = length (h_sets h)"
    by (simp add: add_set_obj_eq)
  moreover have "unchanged h (snd (joined_sets_obj sessions exercises sets h))"
    by (simp add: joined_sets_obj_eq unchanged_def)
  moreover have "unchanged h (snd (exercise_history_obj sessions exercises sets exercise_name h))"
    by (simp add: exercise_history_obj_eq unchanged_def)
  moreover note quick_log_set_obj_unchanged [of h sessions exercises sets date day_group
      exercise_name set_number weight reps rir muscle]
    exercise_progress_obj_unchanged [of h sessions exercises sets exercise_name metric]
    add_week_columns_obj_unchanged [of h sessions]
    weekly_volume_by_muscle_obj_unchanged [of h sessions exercises sets]
    unchanged_nth [of h h']
  ultimately show ?thesis by blast
qed

lemma iso_examples:
  "isocalendar (2024, 12, 30, 0) = (2025, 1)"
  "isocalendar (2025, 1, 2, 0) = (2025, 1)"
  by code_simp+

lemma iso_examples_Suc: "isocalendar (2025, Suc 0, 2, 0) = (2025, 1)"
  using iso_examples(2) by simp

lemma new_year_week_columns:
  "add_week_columns new_year_sessions =
     Inr \<lparr>s_rows =
        [\<lparr>s_session_id = 1, s_date = (2024, 12, 30, 0), s_group = ''Push'', s_notes = None,
          s_week = Some 1, s_year = Some 2024\<rparr>,
         \<lparr>s_session_id = 2, s_date = (2025, 1, 2, 0), s_group = ''Push'', s_notes = None,
          s_week = Some 1, s_year = Some 2025\<rparr>],
      s_date_dtype = Datetime64\<rparr>"
  by (simp add: add_week_columns_def new_year_sessions_def dt_accessor_def set_s_week_def
      set_s_year_def iso_week_def iso_examples iso_examples_Suc ts_year_def)

theorem operations_leave_inputs_unchanged_witness:
  "unchanged (heap_of new_year_sessions new_year_exercises new_year_sets)
     (snd (add_week_columns_obj 0 (heap_of new_year_sessions new_year_exercises new_year_sets)))
   \<and> h_sessions (snd (add_week_columns_obj 0 (heap_of new_year_sessions new_year_exercises new_year_sets))) ! 0
       = new_year_sessions
   \<and> Inr (h_sessions (snd (add_week_columns_obj 0 (heap_of new_year_sessions new_year_exercises new_year_sets))) ! 1)
       = add_week_columns new_year_sessions"
  using operations_leave_inputs_unchanged [where h = "heap_of new_year_sessions new_year_exercises new_year_sets"
      and sessions = 0
      and h' = "snd (add_week_columns_obj 0 (heap_of new_year_sessions new_year_exercises new_year_sets))"]
  by (simp add: add_week_columns_obj_eq new_year_week_columns heap_of_def)


section \<open>Unknown metric\<close>

lemma exercise_progress_raises_iff:
  "(\<exists>err. exercise_progress sessions exercises sets exercise_name metric = Inl err)
     \<longleftrightarrow> metric \<notin> {''top_set_weight'', ''total_volume'', ''e1rm''}
          \<and> j_rows (exercise_history sessions exercises sets exercise_name) \<noteq> []"
  by (simp add: exercise_progress_def Let_def)

lemma exercise_progress_obj_fst:
  "fst (exercise_progress_obj sessions exercises sets exercise_name metric h) = Inl err
     \<longleftrightarrow> exercise_progress (h_sessions h ! sessions) (h_exercises h ! exercises) (h_sets h ! sets)
           exercise_name metric = Inl err"
  using exercise_progress_obj_value [of sessions exercises sets exercise_name metric h]
  by (cases "fst (exercise_progress_obj sessions exercises sets exercise_name metric h)") auto

text \<open>
  Claim C4 (as amended). \<^verbatim>\<open>exercise_progress\<close> raises exactly when the metric is none of
  the three names and the history of the exercise has a row; it then raises ValueError
  with the message "Unknown metric: " followed by the metric. When the history is empty
  (empty tables, or no set of that exercise) it returns the empty history whatever the
  metric is. In every case all frames that existed before the call are unchanged.
\<close>

theorem exercise_progress_unknown_metric:
  "unchanged h (snd (exercise_progress_obj sessions exercises sets exercise_name metric h))
   \<and> ((\<exists>err. fst (exercise_progress_obj sessions exercises sets exercise_name metric h) = Inl err)
        \<longleftrightarrow> metric \<notin> {''top_set_weight'', ''total_volume'', ''e1rm''}
             \<and> j_rows (exercise_history (h_sessions h ! sessions) (h_exercises h ! exercises)
                          (h_sets h ! sets) exercise_name) \<noteq> [])
   \<and> (metric \<notin> {''top_set_weight'', ''total_volume'', ''e1rm''}
        \<and> j_rows (exercise_history (h_sessions h ! sessions) (h_exercises h ! exercises)
                     (h_sets h ! sets) exercise_name) \<noteq> []
        \<longrightarrow> fst (exercise_progress_obj sessions exercises sets exercise_name metric h)
              = Inl (ValueError (''Unknown metric: '' @ metric)))
   \<and> (j_rows (exercise_history (h_sessions h ! sessions) (h_exercises h ! exercises)
                     (h_sets h ! sets) exercise_name) = []
        \<longrightarrow> fst (exercise_progress_obj sessions exercises sets exercise_name metric h)
              = Inr (History_ref (Suc (length (h_joined h))))
            \<and> h_joined (snd (exercise_progress_obj sessions exercises sets exercise_name metric h))
                 ! Suc (length (h_joined h))
              = exercise_history (h_sessions h ! sessions) (h_exercises h ! exercises)
                     (h_sets h ! sets) exercise_name)"
proof (intro conjI)
  show "unchanged h (snd (exercise_progress_obj sessions exercises sets exercise_name metric h))"
    by (rule exercise_progress_obj_unchanged)
next
  show "(\<exists>err. fst (exercise_progress_obj sessions exercises sets exercise_name metric h) = Inl err)
        \<longleftrightarrow> metric \<notin> {''top_set_weight'', ''total_volume'', ''e1rm''}
             \<and> j_rows (exercise_history (h_sessions h ! sessions) (h_exercises h ! exercises)
                          (h_sets h ! sets) exercise_name) \<noteq> []"
    unfolding exercise_progress_obj_fst by (rule exercise_progress_raises_iff)
next
  show "metric \<notin> {''top_set_weight'', ''total_volume'', ''e1rm''}
        \<and> j_rows (exercise_history (h_sessions h ! sessions) (h_exercises h ! exercises)
                     (h_sets h ! sets) exercise_name) \<noteq> []
        \<longrightarrow> fst (exercise_progress_obj sessions exercises sets exercise_name metric h)
              = Inl (ValueError (''Unknown metric: '' @ metric))"
    unfolding exercise_progress_obj_fst by (simp add: exercise_progress_def Let_def)
next
  show "j_rows (exercise_history (h_sessions h ! sessions) (h_exercises h ! exercises)
                     (h_sets h ! sets) exercise_name) = []
        \<longrightarrow> fst (exercise_progress_obj sessions exercises sets exercise_name metric h)
              = Inr (History_ref (Suc (length (h_joined h))))
            \<and> h_joined (snd (exercise_progress_obj sessions exercises sets exercise_name metric h))
                 ! Suc (length (h_joined h))
              = exercise_history (h_sessions h ! sessions) (h_exercises h ! exercises)
                     (h_sets h ! sets) exercise_name"
    by (simp add: exercise_progress_obj_def exercise_history_obj_eq nth_append)
qed

theorem exercise_progress_unknown_metric_witness:
  "''bogus'' \<notin> {''top_set_weight'', ''total_volume'', ''e1rm''}
   \<and> j_rows (exercise_history
        (h_sessions (heap_of (fst (log_all [bench_call 1 100 5, bench_call 2 90 8]))
           (fst (snd (log_all [bench_call 1 100 5, bench_call 2 90 8])))
           (snd (snd (log_all [bench_call 1 100 5, bench_call 2 90 8])))) ! 0)
        (h_exercises (heap_of (fst (log_all [bench_call 1 100 5, bench_call 2 90 8]))
           (fst (snd (log_all [bench_call 1 100 5, bench_call 2 90 8])))
           (snd (snd (log_all [bench_call 1 100 5, bench_call 2 90 8])))) ! 0)
        (h_sets (heap_of (fst (log_all [bench_call 1 100 5, bench_call 2 90 8]))
           (fst (snd (log_all [bench_call 1 100 5, bench_call 2 90 8])))
           (snd (snd (log_all [bench_call 1 100 5, bench_call 2 90 8])))) ! 0) ''Bench'') \<noteq> []
   \<and> fst (exercise_progress_obj 0 0 0 ''Bench'' ''bogus''
        (heap_of (fst (log_all [bench_call 1 100 5, bench_call 2 90 8]))
           (fst (snd (log_all [bench_call 1 100 5, bench_call 2 90 8])))
           (snd (snd (log_all [bench_call 1 100 5, bench_call 2 90 8])))))
     = Inl (ValueError ''Unknown metric: bogus'')"
  using exercise_progress_unknown_metric [where metric = "''bogus''" and exercise_name = "''Bench''"
      and sessions = 0 and exercises = 0 and sets = 0
      and h = "heap_of (fst (log_all [bench_call 1 100 5, bench_call 2 90 8]))
           (fst (snd (log_all [bench_call 1 100 5, bench_call 2 90 8])))
           (snd (snd (log_all [bench_call 1 100 5, bench_call 2 90 8])))"]
  by (simp add: heap_of_def bench_history)

text \<open>
  Claim C4 as stated ("for any inputs including empty ones") fails: on the empty tables
  the unknown metric \<^verbatim>\<open>"bogus"\<close> raises nothing, the call returns the empty history.
\<close>

theorem exercise_progress_unknown_metric_counterexample:
  "fst (exercise_progress_obj 0 0 0 ''Bench'' ''bogus''
          (heap_of empty_sessions_df empty_exercises_df empty_sets_df)) = Inr (History_ref 1)
   \<and> exercise_progress empty_sessions_df empty_exercises_df empty_sets_df ''Bench'' ''bogus''
       = Inr (History \<lparr>j_rows = [], j_date_dtype = ObjectDtype\<rparr>)"
  by (simp add: exercise_progress_obj_def exercise_history_obj_eq heap_of_def nth_append
      exercise_progress_def exercise_history_def loc_sort_values_def joined_sets_def
      merge_exercises_def merge_sessions_def rename_columns_def
      empty_sessions_df_def empty_exercises_df_def empty_sets_df_def)


section \<open>Weekly volume by muscle\<close>

lemma add_week_columns_datetime:
  "s_date_dtype sessions = Datetime64 \<Longrightarrow>
     add_week_columns sessions = Inr (sessions\<lparr>s_rows := map with_week (s_rows sessions)\<rparr>)"
  by (simp add: add_week_columns_def dt_accessor_def set_s_week_def set_s_year_def with_week_def
      comp_def)

lemma add_week_columns_object:
  "s_date_dtype sessions = ObjectDtype \<Longrightarrow>
     add_week_columns sessions
       = Inl (AttributeError ''Can only use .dt accessor with datetimelike values'')"
  by (simp add: add_week_columns_def dt_accessor_def)

lemma merge_sessions_with_week:
  "fst (merge_sessions df (sessions\<lparr>s_rows := map with_week (s_rows sessions)\<rparr>))
     = map (\<lambda>(t, eo, so). (t, eo, map_option with_week so)) (fst (merge_sessions df sessions))"
proof -
  have f: "filter (\<lambda>s. s_session_id s = k) (map with_week xs)
             = map with_week (filter (\<lambda>s. s_session_id s = k) xs)" for k xs
    by (simp add: filter_map comp_def with_week_def)
  show ?thesis
    unfolding merge_sessions_def
    by (induction df) (auto simp: Let_def f split: option.splits)
qed

lemma weekly_columns_with_week:
  "weekly_columns (joined_row_of (t, eo, map_option with_week so))
   = weekly_columns (joined_row_of (t, eo, so))"
  by (cases so) (simp_all add: weekly_columns_def joined_row_of_def with_week_def)

lemma weekly_columns_chain:
  "j_rows (set_volume (set_j_year (set_j_week df))) = map weekly_columns (j_rows df)"
  by (simp add: set_volume_def set_j_year_def set_j_week_def weekly_columns_def comp_def)

lemma joined_sets_with_week:
  "map weekly_columns (j_rows (joined_sets (sessions\<lparr>s_rows := map with_week (s_rows sessions)\<rparr>) exercises sets))
     = map weekly_columns (j_rows (joined_sets sessions exercises sets))"
  by (simp add: joined_sets_def rename_columns_def merge_sessions_with_week comp_def split_def
      weekly_columns_with_week Let_def)

lemma joined_sets_with_week_empty:
  "j_rows (joined_sets (sessions\<lparr>s_rows := map with_week (s_rows sessions)\<rparr>) exercises sets) = []
     \<longleftrightarrow> j_rows (joined_sets sessions exercises sets) = []"
  by (simp add: joined_sets_def rename_columns_def merge_sessions_with_week Let_def)

lemma joined_sets_dtype: "j_date_dtype (joined_sets sessions exercises sets) = s_date_dtype sessions"
  by (simp add: joined_sets_def rename_columns_def merge_sessions_def Let_def)

lemma merge_exercises_empty_iff: "merge_exercises sets exercises = [] \<longleftrightarrow> sets = []"
  by (cases sets) (auto simp: merge_exercises_def Let_def split: if_splits)

lemma merge_sessions_empty_iff: "fst (merge_sessions df sessions) = [] \<longleftrightarrow> df = []"
  by (cases df) (auto simp: merge_sessions_def Let_def split: if_splits)

lemma joined_sets_empty_iff: "j_rows (joined_sets sessions exercises sets) = [] \<longleftrightarrow> sets = []"
  by (simp add: joined_sets_def rename_columns_def merge_sessions_empty_iff merge_exercises_empty_iff Let_def)

lemma weekly_volume_by_muscle_datetime:
  assumes "s_date_dtype sessions = Datetime64"
  shows "weekly_volume_by_muscle sessions exercises sets =
     (if sets = [] then
        Inr (Joined (joined_sets (sessions\<lparr>s_rows := map with_week (s_rows sessions)\<rparr>) exercises sets))
      else
        Inr (Weekly (groupby_weekly
          \<lparr>j_rows = map weekly_columns (j_rows (joined_sets sessions exercises sets)),
           j_date_dtype = Datetime64\<rparr>)))"
proof -
  define s where "s = sessions\<lparr>s_rows := map with_week (s_rows sessions)\<rparr>"
  define df where "df = joined_sets s exercises sets"
  have dt: "j_date_dtype df = Datetime64"
    by (simp add: df_def joined_sets_dtype s_def assms)
  have rows: "j_rows (set_volume (set_j_year (set_j_week df)))
                = map weekly_columns (j_rows (joined_sets sessions exercises sets))"
    unfolding weekly_columns_chain df_def s_def by (rule joined_sets_with_week)
  have fin: "set_volume (set_j_year (set_j_week df))
               = \<lparr>j_rows = map weekly_columns (j_rows (joined_sets sessions exercises sets)),
                  j_date_dtype = Datetime64\<rparr>"
    using rows dt by (simp add: set_volume_def set_j_year_def set_j_week_def)
  have empty: "j_rows df = [] \<longleftrightarrow> sets = []"
    by (simp add: df_def joined_sets_empty_iff)
  show ?thesis
    unfolding weekly_volume_by_muscle_def add_week_columns_datetime [OF assms]
    by (simp add: Let_def s_def [symmetric] df_def [symmetric] empty dt dt_accessor_def fin)
       (simp add: df_def)
qed


lemma weekly_key_columns: "weekly_key (weekly_columns r) = week_group r"
  by (simp add: weekly_key_def weekly_columns_def week_group_def split: option.splits)

lemma group_rows_map_key:
  "(\<And>r. key (u r) = key' r) \<Longrightarrow> group_rows key (map u df) k = map u (group_rows key' df k)"
  by (simp add: group_rows_def filter_map comp_def)

lemma series_count_Some: "series_count (map (\<lambda>r. Some (f r)) g) = length g"
  by (simp add: series_count_def map_filter_Some)

lemma groupby_weekly_rows:
  "groupby_weekly \<lparr>j_rows = map weekly_columns J, j_date_dtype = dt\<rparr> =
     map (\<lambda>k. \<lparr>w_year = fst k, w_week = fst (snd k), w_muscle = snd (snd k),
                w_sets = length (filter (\<lambda>r. week_group r = Some k) J),
                w_volume = kahan_sum (filter (\<lambda>v. v \<noteq> None)
                             (map (\<lambda>r. f_mul (Some (Finite (j_weight r))) (f64_of_int (j_reps r)))
                                (filter (\<lambda>r. week_group r = Some k) J)))\<rparr>)
       (group_keys week_group J)"
proof -
  have keys: "group_keys weekly_key (map weekly_columns J) = group_keys week_group J"
    by (simp add: group_keys_eq weekly_key_columns)
  have rows: "group_rows weekly_key (map weekly_columns J) k
                = map weekly_columns (filter (\<lambda>r. week_group r = Some k) J)" for k
    using group_rows_map_key [of weekly_key weekly_columns week_group J k]
    by (simp add: weekly_key_columns group_rows_def)
  have vol: "j_volume (weekly_columns r) = f_mul (Some (Finite (j_weight r))) (f64_of_int (j_reps r))" for r
    by (simp add: weekly_columns_def)
  have sid: "j_set_id (weekly_columns r) = j_set_id r" for r
    by (simp add: weekly_columns_def)
  show ?thesis
    unfolding groupby_weekly_def groupby_def
    by (simp add: keys rows comp_def vol sid series_count_Some series_sum_def)
qed

lemma groupby_weekly_eq:
  "groupby_weekly \<lparr>j_rows = map weekly_columns J, j_date_dtype = dt\<rparr> =
     map (\<lambda>k. \<lparr>w_year = fst k, w_week = fst (snd k), w_muscle = snd (snd k),
                w_sets = length (filter (\<lambda>r. week_group r = Some k) J),
                w_volume = kahan_sum (filter (\<lambda>v. v \<noteq> None)
                             (map (\<lambda>r. f_mul (Some (Finite (j_weight r))) (f64_of_int (j_reps r)))
                                (filter (\<lambda>r. week_group r = Some k) J)))\<rparr>)
       (sorted_list_of_set {k. \<exists>r \<in> set J. week_group r = Some k})"
  by (simp add: groupby_weekly_rows group_keys_eq)


lemma sum_group_sizes:
  "finite K \<Longrightarrow> {k. \<exists>r \<in> set xs. key r = Some k} \<subseteq> K \<Longrightarrow>
     (\<Sum>k \<in> K. length (filter (\<lambda>r. key r = Some k) xs)) = length (filter (\<lambda>r. key r \<noteq> None) xs)"
proof (induction xs)
  case Nil
  then show ?case by simp
next
  case (Cons x xs)
  have sub: "{k. \<exists>r \<in> set xs. key r = Some k} \<subseteq> K"
    using Cons.prems(2) by auto
  note IH = Cons.IH [OF Cons.prems(1) sub]
  show ?case
  proof (cases "key x")
    case None
    then show ?thesis using IH by simp
  next
    case (Some k0)
    then have k0: "k0 \<in> K" using Cons.prems(2) by auto
    have "(\<Sum>k \<in> K. length (filter (\<lambda>r. key r = Some k) (x # xs)))
            = (\<Sum>k \<in> K. length (filter (\<lambda>r. key r = Some k) xs) + (if k = k0 then 1 else 0))"
      by (rule sum.cong) (auto simp: Some)
    also have "\<dots> = (\<Sum>k \<in> K. length (filter (\<lambda>r. key r = Some k) xs)) + 1"
      using Cons.prems(1) k0 by (simp add: sum.distrib)
    finally show ?thesis using IH Some by simp
  qed
qed

lemma sum_list_group_sizes:
  "sum_list (map (\<lambda>k. length (filter (\<lambda>r. key r = Some k) xs))
       (sorted_list_of_set {k. \<exists>r \<in> set xs. key r = Some k}))
     = length (filter (\<lambda>r. key r \<noteq> None) xs)"
proof -
  define K where "K = {k. \<exists>r \<in> set xs. key r = Some k}"
  have fin: "finite K"
    unfolding K_def set_map_filter [symmetric] by simp
  have "sum_list (map (\<lambda>k. length (filter (\<lambda>r. key r = Some k) xs)) (sorted_list_of_set K))
          = (\<Sum>k \<in> K. length (filter (\<lambda>r. key r = Some k) xs))"
    using fin by (simp add: sum_list_distinct_conv_sum_set)
  also have "\<dots> = length (filter (\<lambda>r. key r \<noteq> None) xs)"
    by (rule sum_group_sizes [OF fin]) (simp add: K_def)
  finally show ?thesis unfolding K_def .
qed

lemma merge_exercises_member:
  "(t, eo) \<in> set (merge_exercises sets exercises) \<Longrightarrow>
     (\<forall>e \<in> set exercises. e_exercise_id e \<noteq> t_exercise_id t) \<Longrightarrow> eo = None"
  by (auto simp: merge_exercises_def Let_def filter_empty_conv split: if_splits)

lemma merge_sessions_member:
  "(t, eo, so) \<in> set (fst (merge_sessions df sessions)) \<Longrightarrow> (t, eo) \<in> set df"
  by (auto simp: merge_sessions_def Let_def split: if_splits)

lemma joined_sets_dangling:
  assumes "r \<in> set (j_rows (joined_sets sessions exercises sets))"
    and "\<forall>e \<in> set exercises. e_exercise_id e \<noteq> j_exercise_id r"
  shows "j_muscle r = None"
proof -
  obtain t eo so where mem: "(t, eo, so) \<in> set (fst (merge_sessions (merge_exercises sets exercises) sessions))"
    and r: "r = joined_row_of (t, eo, so)"
    using assms(1) by (auto simp: joined_sets_def rename_columns_def Let_def)
  have id: "j_exercise_id r = t_exercise_id t"
    by (simp add: r joined_row_of_def)
  have "eo = None"
    using merge_exercises_member [OF merge_sessions_member [OF mem]] assms(2) id by simp
  then show ?thesis by (simp add: r joined_row_of_def)
qed

lemma week_group_None_iff:
  "week_group r \<noteq> None \<longleftrightarrow> j_muscle r \<noteq> None \<and> j_session_date r \<noteq> None"
  by (auto simp: week_group_def split: option.splits)

text \<open>
  Claim C10 (as amended). Let the date column of \<^verbatim>\<open>sessions\<close> be \<^verbatim>\<open>datetime64\<close> and
  \<^verbatim>\<open>sets\<close> have a row. Then \<^verbatim>\<open>weekly_volume_by_muscle\<close> returns one row per (calendar year,
  ISO week, muscle) that occurs among the joined rows with both a session date and a
  muscle; its \<^verbatim>\<open>sets\<close> is the number of those joined rows and its \<^verbatim>\<open>volume\<close> the
  float64 sum of their float64 products weight times reps. A joined row whose muscle is absent is in no group (the counts
  add up to the number of joined rows that have a muscle and a date), and the muscle is
  absent whenever the set's exercise does not exist. A joined row whose muscle is the
  empty string and whose session date is present is counted in the group of its year
  and week with the empty string as muscle.
\<close>

theorem weekly_volume_absent_muscle:
  assumes "s_date_dtype sessions = Datetime64" and "sets \<noteq> []"
    and "J = j_rows (joined_sets sessions exercises sets)"
  shows "\<exists>W. weekly_volume_by_muscle sessions exercises sets = Inr (Weekly W)
    \<and> W = map (\<lambda>k. \<lparr>w_year = fst k, w_week = fst (snd k), w_muscle = snd (snd k),
                     w_sets = length (filter (\<lambda>r. week_group r = Some k) J),
                     w_volume = kahan_sum (filter (\<lambda>v. v \<noteq> None)
                                  (map (\<lambda>r. f_mul (Some (Finite (j_weight r))) (f64_of_int (j_reps r)))
                                     (filter (\<lambda>r. week_group r = Some k) J)))\<rparr>)
            (sorted_list_of_set {k. \<exists>r \<in> set J. week_group r = Some k})
    \<and> sum_list (map w_sets W)
        = length (filter (\<lambda>r. j_muscle r \<noteq> None \<and> j_session_date r \<noteq> None) J)
    \<and> (\<forall>r \<in> set J. j_muscle r = None \<longrightarrow>
          (\<forall>w \<in> set W. week_group r \<noteq> Some (w_year w, w_week w, w_muscle w)))
    \<and> (\<forall>r \<in> set J. (\<forall>e \<in> set exercises. e_exercise_id e \<noteq> j_exercise_id r) \<longrightarrow> j_muscle r = None)
    \<and> (\<forall>r \<in> set J. \<forall>d. j_muscle r = Some '''' \<and> j_session_date r = Some d \<longrightarrow>
          week_group r = Some (ts_year d, iso_week d, '''')
          \<and> (\<exists>w \<in> set W. w_year w = ts_year d \<and> w_week w = iso_week d \<and> w_muscle w = ''''))"
proof -
  define K where "K = {k. \<exists>r \<in> set J. week_group r = Some k}"
  define row where "row = (\<lambda>k. \<lparr>w_year = fst k, w_week = fst (snd k), w_muscle = snd (snd k),
                     w_sets = length (filter (\<lambda>r. week_group r = Some k) J),
                     w_volume = kahan_sum (filter (\<lambda>v. v \<noteq> None)
                                  (map (\<lambda>r. f_mul (Some (Finite (j_weight r))) (f64_of_int (j_reps r)))
                                     (filter (\<lambda>r. week_group r = Some k) J)))\<rparr>)"
  define W where "W = map row (sorted_list_of_set K)"
  have fin: "finite K"
    unfolding K_def set_map_filter [symmetric] by simp
  have setW: "set W = row ` K"
    using fin by (simp add: W_def)
  have 1: "weekly_volume_by_muscle sessions exercises sets = Inr (Weekly W)"
    unfolding weekly_volume_by_muscle_datetime [OF assms(1)] groupby_weekly_eq
    using assms(2) by (simp add: W_def row_def K_def assms(3))
  have sizes: "map w_sets W
      = map (\<lambda>k. length (filter (\<lambda>r. week_group r = Some k) J))
          (sorted_list_of_set {k. \<exists>r \<in> set J. week_group r = Some k})"
    by (simp add: W_def row_def comp_def K_def)
  have present: "(\<lambda>r. week_group r \<noteq> None) = (\<lambda>r. j_muscle r \<noteq> None \<and> j_session_date r \<noteq> None)"
    by (rule ext) (rule week_group_None_iff)
  have 2: "sum_list (map w_sets W)
        = length (filter (\<lambda>r. j_muscle r \<noteq> None \<and> j_session_date r \<noteq> None) J)"
    unfolding sizes sum_list_group_sizes present ..
  have 3: "\<forall>r \<in> set J. j_muscle r = None \<longrightarrow>
          (\<forall>w \<in> set W. week_group r \<noteq> Some (w_year w, w_week w, w_muscle w))"
    by (auto simp: week_group_def split: option.splits)
  have 4: "\<forall>r \<in> set J. (\<forall>e \<in> set exercises. e_exercise_id e \<noteq> j_exercise_id r) \<longrightarrow> j_muscle r = None"
    using joined_sets_dangling unfolding assms(3) by blast
  have 5: "\<forall>r \<in> set J. \<forall>d. j_muscle r = Some '''' \<and> j_session_date r = Some d \<longrightarrow>
          week_group r = Some (ts_year d, iso_week d, '''')
          \<and> (\<exists>w \<in> set W. w_year w = ts_year d \<and> w_week w = iso_week d \<and> w_muscle w = '''')"
  proof (intro ballI allI impI)
    fix r d
    assume r: "r \<in> set J" and md: "j_muscle r = Some '''' \<and> j_session_date r = Some d"
    have g: "week_group r = Some (ts_year d, iso_week d, '''')"
      using md by (simp add: week_group_def)
    then have "(ts_year d, iso_week d, '''') \<in> K"
      using r unfolding K_def by blast
    then have "row (ts_year d, iso_week d, '''') \<in> set W"
      unfolding setW by blast
    moreover have "w_year (row (ts_year d, iso_week d, '''')) = ts_year d"
      "w_week (row (ts_year d, iso_week d, '''')) = iso_week d"
      "w_muscle (row (ts_year d, iso_week d, '''')) = ''''"
      by (simp_all add: row_def)
    ultimately show "week_group r = Some (ts_year d, iso_week d, '''')
          \<and> (\<exists>w \<in> set W. w_year w = ts_year d \<and> w_week w = iso_week d \<and> w_muscle w = '''')"
      using g by blast
  qed
  show ?thesis
    using 1 2 3 4 5 unfolding W_def row_def K_def by blast
qed


lemma map2_map: "map2 f ks (map g ks) = map (\<lambda>k. f k (g k)) ks"
  by (induction ks) simp_all

lemma weekly_volume_by_muscle_cells:
  assumes "s_date_dtype sessions = Datetime64" and "sets \<noteq> []"
    and "group_keys week_group (j_rows (joined_sets sessions exercises sets)) = ks"
    and "map (\<lambda>k. map (\<lambda>r. (j_weight r, j_reps r))
                    (filter (\<lambda>r. week_group r = Some k) (j_rows (joined_sets sessions exercises sets)))) ks
           = cells"
  shows "weekly_volume_by_muscle sessions exercises sets =
     Inr (Weekly (map2 (\<lambda>k c. \<lparr>w_year = fst k, w_week = fst (snd k), w_muscle = snd (snd k),
                          w_sets = length c,
                          w_volume = kahan_sum (filter (\<lambda>v. v \<noteq> None)
                             (map (\<lambda>(w, n). f_mul (Some (Finite w)) (f64_of_int n)) c))\<rparr>) ks cells))"
  unfolding weekly_volume_by_muscle_datetime [OF assms(1)] groupby_weekly_rows assms(3)
    assms(4) [symmetric] map2_map
  using assms(2) by (simp add: comp_def)

lemma weekly_float_values:
  "f_mul (Some (Finite 10)) (f64_of_int 30) = Some (Finite 300)"
  "kahan_sum [Some (Finite 300)] = Some (Finite 300)"
  "kahan_sum [Some (Finite 500)] = Some (Finite 500)"
  "kahan_sum [Some (Finite 720)] = Some (Finite 720)"
  by (simp_all add: float_eval)

lemma core_keys:
  "group_keys week_group (j_rows (joined_sets new_year_sessions (new_year_exercises @ [core_exercise])
       (new_year_sets @ [dangling_set, core_set])))
     = [(2024, 1, ''''), (2024, 1, ''chest''), (2025, 1, ''chest'')]"
  by code_simp

lemma core_cells:
  "map (\<lambda>k. map (\<lambda>r. (j_weight r, j_reps r))
          (filter (\<lambda>r. week_group r = Some k)
             (j_rows (joined_sets new_year_sessions (new_year_exercises @ [core_exercise])
                (new_year_sets @ [dangling_set, core_set])))))
       [(2024, 1, ''''), (2024, 1, ''chest''), (2025, 1, ''chest'')]
     = [[(10, 30)], [(100, 5)], [(90, 8)]]"
  by code_simp

lemma core_weekly:
  "weekly_volume_by_muscle new_year_sessions (new_year_exercises @ [core_exercise])
       (new_year_sets @ [dangling_set, core_set])
     = Inr (Weekly
         [\<lparr>w_year = 2024, w_week = 1, w_muscle = '''', w_sets = 1, w_volume = Some (Finite 300)\<rparr>,
          \<lparr>w_year = 2024, w_week = 1, w_muscle = ''chest'', w_sets = 1, w_volume = Some (Finite 500)\<rparr>,
          \<lparr>w_year = 2025, w_week = 1, w_muscle = ''chest'', w_sets = 1, w_volume = Some (Finite 720)\<rparr>])"
proof -
  have "new_year_sets @ [dangling_set, core_set] \<noteq> []"
    by simp
  moreover have "s_date_dtype new_year_sessions = Datetime64"
    by (simp add: new_year_sessions_def)
  ultimately show ?thesis
    using weekly_volume_by_muscle_cells [OF _ _ core_keys core_cells]
    by (simp add: bench_volume_values weekly_float_values)
qed

lemma plank_keys:
  "group_keys week_group (j_rows (joined_sets new_year_sessions plank_exercises plank_sets)) = []"
  by code_simp

lemma plank_weekly:
  "weekly_volume_by_muscle new_year_sessions plank_exercises plank_sets = Inr (Weekly [])"
proof -
  have "plank_sets \<noteq> []"
    by (simp add: plank_sets_def add_set_def)
  moreover have "s_date_dtype new_year_sessions = Datetime64"
    by (simp add: new_year_sessions_def)
  ultimately show ?thesis
    using weekly_volume_by_muscle_cells [OF _ _ plank_keys refl] by simp
qed

lemma new_year_keys:
  "group_keys week_group (j_rows (joined_sets new_year_sessions new_year_exercises new_year_sets))
     = [(2024, 1, ''chest''), (2025, 1, ''chest'')]"
  by code_simp

lemma new_year_cells:
  "map (\<lambda>k. map (\<lambda>r. (j_weight r, j_reps r))
          (filter (\<lambda>r. week_group r = Some k)
             (j_rows (joined_sets new_year_sessions new_year_exercises new_year_sets))))
       [(2024, 1, ''chest''), (2025, 1, ''chest'')]
     = [[(100, 5)], [(90, 8)]]"
  by code_simp

lemma new_year_weekly:
  "weekly_volume_by_muscle new_year_sessions new_year_exercises new_year_sets
     = Inr (Weekly
         [\<lparr>w_year = 2024, w_week = 1, w_muscle = ''chest'', w_sets = 1, w_volume = Some (Finite 500)\<rparr>,
          \<lparr>w_year = 2025, w_week = 1, w_muscle = ''chest'', w_sets = 1, w_volume = Some (Finite 720)\<rparr>])"
proof -
  have "new_year_sets \<noteq> []"
    by (simp add: new_year_sets_def)
  moreover have "s_date_dtype new_year_sessions = Datetime64"
    by (simp add: new_year_sessions_def)
  ultimately show ?thesis
    using weekly_volume_by_muscle_cells [OF _ _ new_year_keys new_year_cells]
    by (simp add: bench_volume_values weekly_float_values)
qed


theorem weekly_volume_absent_muscle_witness:
  "s_date_dtype new_year_sessions = Datetime64
   \<and> new_year_sets @ [dangling_set, core_set] \<noteq> []
   \<and> weekly_volume_by_muscle new_year_sessions (new_year_exercises @ [core_exercise])
         (new_year_sets @ [dangling_set, core_set])
       = Inr (Weekly
           [\<lparr>w_year = 2024, w_week = 1, w_muscle = '''', w_sets = 1, w_volume = Some (Finite 300)\<rparr>,
            \<lparr>w_year = 2024, w_week = 1, w_muscle = ''chest'', w_sets = 1, w_volume = Some (Finite 500)\<rparr>,
            \<lparr>w_year = 2025, w_week = 1, w_muscle = ''chest'', w_sets = 1, w_volume = Some (Finite 720)\<rparr>])"
  using weekly_volume_absent_muscle [OF _ _ refl, of new_year_sessions
      "new_year_sets @ [dangling_set, core_set]" "new_year_exercises @ [core_exercise]"]
    core_weekly
  by (simp add: new_year_sessions_def)

text \<open>
  Claim C10 as stated fails in its second half: a set whose exercise has the empty string
  as muscle is dropped when the exercise's session does not exist (the year and the week
  of its joined row are absent, and \<^verbatim>\<open>groupby\<close> drops a row with an absent key).
  \<^verbatim>\<open>add_exercise\<close> stores such an exercise without complaint.
\<close>

theorem weekly_volume_empty_muscle_counterexample:
  "map e_muscle plank_exercises = [Some '''']
   \<and> map t_exercise_id plank_sets = map e_exercise_id plank_exercises
   \<and> weekly_volume_by_muscle new_year_sessions plank_exercises plank_sets = Inr (Weekly [])"
  using plank_weekly
  by (simp add: plank_exercises_def plank_sets_def add_exercise_def add_set_def next_id_def
      empty_exercises_df_def empty_sets_df_def)

text \<open>
  Claim C5 (a defect of the code). On the empty tables that \<^verbatim>\<open>load_data\<close> builds when no
  file exists, \<^verbatim>\<open>exercise_progress\<close> returns the empty history for every exercise name and
  metric, but \<^verbatim>\<open>weekly_volume_by_muscle\<close> raises AttributeError: \<^verbatim>\<open>add_week_columns\<close> applies
  \<^verbatim>\<open>.dt\<close> to the \<^verbatim>\<open>date\<close> column, whose dtype is \<^verbatim>\<open>object\<close> in a frame made by
  \<^verbatim>\<open>pd.DataFrame(columns=[...])\<close>, before the guard \<^verbatim>\<open>if df.empty: return df\<close> is reached.
  With a \<^verbatim>\<open>datetime64\<close> date column the empty tables give the empty joined frame.
\<close>

theorem empty_tables_weekly_raises:
  "weekly_volume_by_muscle empty_sessions_df empty_exercises_df empty_sets_df
     = Inl (AttributeError ''Can only use .dt accessor with datetimelike values'')
   \<and> exercise_progress empty_sessions_df empty_exercises_df empty_sets_df exercise_name metric
     = Inr (History \<lparr>j_rows = [], j_date_dtype = ObjectDtype\<rparr>)
   \<and> weekly_volume_by_muscle \<lparr>s_rows = [], s_date_dtype = Datetime64\<rparr> empty_exercises_df empty_sets_df
     = Inr (Joined \<lparr>j_rows = [], j_date_dtype = Datetime64\<rparr>)"
  by (simp add: weekly_volume_by_muscle_def add_week_columns_def dt_accessor_def
      exercise_progress_def exercise_history_def loc_sort_values_def joined_sets_def
      merge_exercises_def merge_sessions_def rename_columns_def set_s_week_def set_s_year_def
      empty_sessions_df_def empty_exercises_df_def empty_sets_df_def)

text \<open>
  Claim C6 (a defect of the code). \<^verbatim>\<open>add_week_columns\<close> is documented as adding "ISO
  week/year columns", and the week is the ISO week, but the year is \<^verbatim>\<open>dt.year\<close>, the
  calendar year. Monday 30 December 2024 and Thursday 2 January 2025 lie in the same
  ISO week (week 1 of ISO year 2025); two chest sets on these days come out as two
  rows, (2024, 1) and (2025, 1), each with one set, and not as one row with two sets.
\<close>

theorem weekly_volume_calendar_year:
  "isocalendar (2024, 12, 30, 0) = (2025, 1)
   \<and> isocalendar (2025, 1, 2, 0) = (2025, 1)
   \<and> map j_session_date (j_rows (joined_sets new_year_sessions new_year_exercises new_year_sets))
       = [Some (2024, 12, 30, 0), Some (2025, 1, 2, 0)]
   \<and> map j_muscle (j_rows (joined_sets new_year_sessions new_year_exercises new_year_sets))
       = [Some ''chest'', Some ''chest'']
   \<and> weekly_volume_by_muscle new_year_sessions new_year_exercises new_year_sets
       = Inr (Weekly
           [\<lparr>w_year = 2024, w_week = 1, w_muscle = ''chest'', w_sets = 1, w_volume = Some (Finite 500)\<rparr>,
            \<lparr>w_year = 2025, w_week = 1, w_muscle = ''chest'', w_sets = 1, w_volume = Some (Finite 720)\<rparr>])"
  using new_year_weekly iso_examples
  by (simp add: new_year_eval joined_sets_def merge_exercises_def merge_sessions_def
      rename_columns_def joined_row_of_def Let_def)

end
